theory Spec2Isabelle
  imports Complex_Main "HOL-Library.Log_Nat" "HOL-Library.Word"
begin

section \<open>Python values used by \<^verbatim>\<open>sol_swap.py\<close>\<close>

text \<open>
  The program is a sequence of HTTP requests, JSON look-ups, float comparisons and one
  local signing step. This section models the Python values it handles.

  A Python \<^verbatim>\<open>float\<close> is an IEEE 754 binary64 value. A finite one is kept as
  the rational number it denotes; the two infinities and NaN are separate constructors.
  Negative zero is identified with zero (the program only compares floats, multiplies
  and divides them and truncates them to integers, and \<^verbatim>\<open>-0.0 == 0\<close>,
  \<^verbatim>\<open>int(-0.0) == 0\<close>).
\<close>

datatype pyfloat = Fin rat | PInf | NInf | NaN

text \<open>A Python number is an unbounded \<^verbatim>\<open>int\<close> or a \<^verbatim>\<open>float\<close>.\<close>

datatype pynum = PInt int | PFloat pyfloat

subsection \<open>Rounding to binary64\<close>

definition pow2 :: "int \<Rightarrow> rat" where
  "pow2 e = (if 0 \<le> e then 2 ^ nat e else 1 / 2 ^ nat (- e))"

text \<open>\<open>ilog2 x\<close> is the exponent \<open>e\<close> with \<open>2\<^sup>e \<le> x < 2\<^sup>e\<^sup>+\<^sup>1\<close>, for a positive rational.\<close>

definition ilog2 :: "rat \<Rightarrow> int" where
  "ilog2 x = (let d = bitlen (fst (quotient_of x)) - bitlen (snd (quotient_of x))
              in if pow2 d \<le> x then d else d - 1)"

definition round_half_even :: "rat \<Rightarrow> int" where
  "round_half_even x =
     (let f = \<lfloor>x\<rfloor>; r = x - of_int f
      in if r < 1 / 2 then f
         else if 1 / 2 < r then f + 1
         else if even f then f else f + 1)"

text \<open>
  The spacing of the doubles around \<open>x\<close>: 53 significant bits, and the fixed spacing
  \<open>2\<^sup>-\<^sup>1\<^sup>0\<^sup>7\<^sup>4\<close> in the subnormal range.
\<close>

definition ulp :: "rat \<Rightarrow> rat" where
  "ulp x = pow2 (max (ilog2 \<bar>x\<bar>) (- 1022) - 52)"

definition nearest_double :: "rat \<Rightarrow> rat" where
  "nearest_double x = (if x = 0 then 0 else of_int (round_half_even (x / ulp x)) * ulp x)"

definition overflows :: "rat \<Rightarrow> bool" where
  "overflows x \<longleftrightarrow> 2 ^ 1024 \<le> \<bar>nearest_double x\<bar>"

text \<open>The result of a float operation whose exact value is \<open>x\<close> (round to nearest, ties to even).\<close>

definition round_double :: "rat \<Rightarrow> pyfloat" where
  "round_double x =
     (if overflows x then (if 0 < x then PInf else NInf) else Fin (nearest_double x))"


subsection \<open>Parsed JSON\<close>

text \<open>
  What \<^verbatim>\<open>response.json()\<close> returns: \<^verbatim>\<open>None\<close>, a bool, a number, a string, a
  list, or a dict with string keys in insertion order (the parser keeps one entry per key).
\<close>

datatype json =
    JNull
  | JBool bool
  | JNum pynum
  | JStr string
  | JArr "json list"
  | JObj "(string \<times> json) list"

subsection \<open>Exceptions and formatted strings\<close>

datatype exn =
    RequestException string
  | HTTPError int
  | JSONDecodeError
  | KeyError string
  | IndexError
  | TypeError
  | AttributeError
  | ValueError
  | OverflowError
  | ZeroDivisionError
  | LibraryError string
  | Exception "part list"
and part = Lit string | OfJson json | OfNum pynum | OfExn exn

text \<open>
  \<open>exn\<close> lists the Python exceptions the program can meet; all of them are subclasses of
  \<^verbatim>\<open>Exception\<close>, so every \<^verbatim>\<open>except Exception\<close> catches each. A formatted
  string (an f-string) is kept as the list of its parts, so that no text rendering of
  floats or exceptions has to be modelled: \<open>Lit\<close> is literal text (or a string value),
  \<open>OfJson\<close> and \<open>OfNum\<close> a formatted value, \<open>OfExn\<close> is \<^verbatim>\<open>str(e)\<close>.
\<close>

subsection \<open>Float arithmetic and comparison\<close>

definition float_of_int :: "int \<Rightarrow> exn + pyfloat" where
  "float_of_int i = (if overflows (of_int i) then Inl OverflowError else Inr (Fin (nearest_double (of_int i))))"

fun fl_neg :: "pyfloat \<Rightarrow> pyfloat" where
  "fl_neg (Fin a) = Fin (- a)"
| "fl_neg PInf = NInf"
| "fl_neg NInf = PInf"
| "fl_neg NaN = NaN"

fun fl_mul :: "pyfloat \<Rightarrow> pyfloat \<Rightarrow> pyfloat" where
  "fl_mul NaN y = NaN"
| "fl_mul x NaN = NaN"
| "fl_mul (Fin a) (Fin b) = round_double (a * b)"
| "fl_mul (Fin a) y = (if a = 0 then NaN else if 0 < a then y else fl_neg y)"
| "fl_mul x (Fin b) = (if b = 0 then NaN else if 0 < b then x else fl_neg x)"
| "fl_mul x y = (if x = y then PInf else NInf)"

fun fl_div :: "pyfloat \<Rightarrow> pyfloat \<Rightarrow> exn + pyfloat" where
  "fl_div x (Fin b) =
     (if b = 0 then Inl ZeroDivisionError
      else case x of
          Fin a \<Rightarrow> Inr (round_double (a / b))
        | NaN \<Rightarrow> Inr NaN
        | _ \<Rightarrow> Inr (if 0 < b then x else fl_neg x))"
| "fl_div NaN y = Inr NaN"
| "fl_div x NaN = Inr NaN"
| "fl_div (Fin a) y = Inr (Fin 0)"
| "fl_div x y = Inr NaN"

fun fl_lt :: "pyfloat \<Rightarrow> pyfloat \<Rightarrow> bool" where
  "fl_lt NaN y = False"
| "fl_lt x NaN = False"
| "fl_lt (Fin a) (Fin b) = (a < b)"
| "fl_lt x NInf = False"
| "fl_lt PInf y = False"
| "fl_lt x y = True"

fun fl_eq :: "pyfloat \<Rightarrow> pyfloat \<Rightarrow> bool" where
  "fl_eq NaN y = False"
| "fl_eq x NaN = False"
| "fl_eq x y = (x = y)"

text \<open>
  Python compares an \<^verbatim>\<open>int\<close> with a \<^verbatim>\<open>float\<close> by their exact values, so an
  integer is embedded exactly for comparison.
\<close>

fun num_val :: "pynum \<Rightarrow> pyfloat" where
  "num_val (PInt i) = Fin (of_int i)"
| "num_val (PFloat f) = f"

definition num_lt :: "pynum \<Rightarrow> pynum \<Rightarrow> bool" where
  "num_lt a b = fl_lt (num_val a) (num_val b)"

definition num_gt :: "pynum \<Rightarrow> pynum \<Rightarrow> bool" where
  "num_gt a b = fl_lt (num_val b) (num_val a)"

definition num_eq :: "pynum \<Rightarrow> pynum \<Rightarrow> bool" where
  "num_eq a b = fl_eq (num_val a) (num_val b)"

definition num_le :: "pynum \<Rightarrow> pynum \<Rightarrow> bool" where
  "num_le a b \<longleftrightarrow> num_lt a b \<or> num_eq a b"

text \<open>\<^verbatim>\<open>a * b\<close>: exact on two integers; an integer operand of a float is converted first.\<close>

fun num_mul :: "pynum \<Rightarrow> pynum \<Rightarrow> exn + pynum" where
  "num_mul (PInt a) (PInt b) = Inr (PInt (a * b))"
| "num_mul (PFloat x) (PInt b) =
     (case float_of_int b of Inl e \<Rightarrow> Inl e | Inr y \<Rightarrow> Inr (PFloat (fl_mul x y)))"
| "num_mul (PInt a) (PFloat y) =
     (case float_of_int a of Inl e \<Rightarrow> Inl e | Inr x \<Rightarrow> Inr (PFloat (fl_mul x y)))"
| "num_mul (PFloat x) (PFloat y) = Inr (PFloat (fl_mul x y))"

text \<open>\<^verbatim>\<open>x / b\<close> for a float \<open>x\<close>.\<close>

fun float_div_num :: "pyfloat \<Rightarrow> pynum \<Rightarrow> exn + pyfloat" where
  "float_div_num x (PFloat y) = fl_div x y"
| "float_div_num x (PInt b) =
     (case float_of_int b of Inl e \<Rightarrow> Inl e | Inr y \<Rightarrow> fl_div x y)"

text \<open>\<^verbatim>\<open>int(x)\<close>: truncation toward zero.\<close>

definition trunc_zero :: "rat \<Rightarrow> int" where
  "trunc_zero r = (if 0 \<le> r then \<lfloor>r\<rfloor> else \<lceil>r\<rceil>)"

fun py_int :: "pynum \<Rightarrow> exn + int" where
  "py_int (PInt i) = Inr i"
| "py_int (PFloat (Fin r)) = Inr (trunc_zero r)"
| "py_int (PFloat NaN) = Inl ValueError"
| "py_int (PFloat x) = Inl OverflowError"

text \<open>\<^verbatim>\<open>str(n)\<close> of an integer: its decimal digits, with a minus sign when negative.\<close>

definition digit_char :: "nat \<Rightarrow> char" where
  "digit_char d = ''0123456789'' ! d"

function dec_digits :: "nat \<Rightarrow> string" where
  "dec_digits n = (if n < 10 then [digit_char n] else dec_digits (n div 10) @ [digit_char (n mod 10)])"
  by pat_completeness auto
termination
  by (relation "measure id") auto

declare dec_digits.simps [simp del]

definition py_str_int :: "int \<Rightarrow> string" where
  "py_str_int i = (if i < 0 then CHR ''-'' # dec_digits (nat (- i)) else dec_digits (nat i))"

subsection \<open>Operations on parsed JSON\<close>

fun truthy :: "json \<Rightarrow> bool" where
  "truthy JNull = False"
| "truthy (JBool b) = b"
| "truthy (JNum n) = (\<not> num_eq n (PInt 0))"
| "truthy (JStr s) = (s \<noteq> [])"
| "truthy (JArr xs) = (xs \<noteq> [])"
| "truthy (JObj kvs) = (kvs \<noteq> [])"

text \<open>\<^verbatim>\<open>x[k]\<close> with a string key.\<close>

fun subscript :: "json \<Rightarrow> string \<Rightarrow> exn + json" where
  "subscript (JObj kvs) k = (case map_of kvs k of None \<Rightarrow> Inl (KeyError k) | Some v \<Rightarrow> Inr v)"
| "subscript x k = Inl TypeError"

text \<open>\<^verbatim>\<open>x[0]\<close>. A dict parsed from JSON has string keys only, so the key 0 is never present.\<close>

fun subscript0 :: "json \<Rightarrow> exn + json" where
  "subscript0 (JArr xs) = (case xs of [] \<Rightarrow> Inl IndexError | x # _ \<Rightarrow> Inr x)"
| "subscript0 (JStr s) = (case s of [] \<Rightarrow> Inl IndexError | c # _ \<Rightarrow> Inr (JStr [c]))"
| "subscript0 (JObj kvs) = Inl (KeyError ''0'')"
| "subscript0 x = Inl TypeError"

fun substring :: "string \<Rightarrow> string \<Rightarrow> bool" where
  "substring k [] = (k = [])"
| "substring k (c # s) = (take (length k) (c # s) = k \<or> substring k s)"

text \<open>\<^verbatim>\<open>k in x\<close> for a string \<open>k\<close>: a key of a dict, an element of a list, a substring of a string.\<close>

fun py_in :: "string \<Rightarrow> json \<Rightarrow> exn + bool" where
  "py_in k (JObj kvs) = Inr (k \<in> set (map fst kvs))"
| "py_in k (JArr xs) = Inr (JStr k \<in> set xs)"
| "py_in k (JStr s) = Inr (substring k s)"
| "py_in k x = Inl TypeError"

text \<open>\<^verbatim>\<open>x.get(k, default)\<close>: only a dict has the method.\<close>

fun py_get :: "json \<Rightarrow> string \<Rightarrow> json \<Rightarrow> exn + json" where
  "py_get (JObj kvs) k d = (case map_of kvs k of None \<Rightarrow> Inr d | Some v \<Rightarrow> Inr v)"
| "py_get x k d = Inl AttributeError"


text \<open>\<^verbatim>\<open>float(x)\<close> of a parsed value; the parsing of a string is the interpreter's and is a parameter.\<close>

fun py_float :: "(string \<Rightarrow> pyfloat option) \<Rightarrow> json \<Rightarrow> exn + pyfloat" where
  "py_float parse (JNum (PInt i)) = float_of_int i"
| "py_float parse (JNum (PFloat f)) = Inr f"
| "py_float parse (JBool b) = Inr (Fin (if b then 1 else 0))"
| "py_float parse (JStr s) = (case parse s of None \<Rightarrow> Inl ValueError | Some f \<Rightarrow> Inr f)"
| "py_float parse x = Inl TypeError"

text \<open>
  \<^verbatim>\<open>10 ** d\<close>: an exact integer for a natural exponent (a bool counts as 0 or 1); a float
  computed by the C library's \<^verbatim>\<open>pow\<close>, a parameter, for a negative or float exponent.
\<close>

fun pow10 :: "(pyfloat \<Rightarrow> exn + pyfloat) \<Rightarrow> json \<Rightarrow> exn + pynum" where
  "pow10 fpow (JNum (PInt d)) =
     (if 0 \<le> d then Inr (PInt (10 ^ nat d))
      else case fpow (Fin (of_int d)) of Inl e \<Rightarrow> Inl e | Inr f \<Rightarrow> Inr (PFloat f))"
| "pow10 fpow (JNum (PFloat x)) = (case fpow x of Inl e \<Rightarrow> Inl e | Inr f \<Rightarrow> Inr (PFloat f))"
| "pow10 fpow (JBool b) = Inr (PInt (if b then 10 else 1))"
| "pow10 fpow x = Inl TypeError"

section \<open>The network and the effects of a run\<close>

text \<open>
  Every HTTP call either raises (no answer: a connection failure, a timeout) or returns a
  response with a status code, a body text and, when the body is JSON, its parsed value.
  The network is any sequence of such outcomes: the \<open>n\<close>-th call of a run gets the
  \<open>n\<close>-th outcome. A run records, in order, what it sent, slept, logged and printed.
\<close>

record response =
  status_code :: int
  body_text :: string
  body_json :: "json option"

datatype outcome = Unreachable string | Answer response

type_synonym network = "nat \<Rightarrow> outcome"

datatype request =
    HttpPost string json "(string \<times> string) list"
  | HttpGet string

datatype level = WARNING | ERROR

datatype event =
    Sent request
  | Slept nat
  | Logged level "part list"
  | Printed "part list"

datatype run = Run (calls: nat) (trace: "event list")

type_synonym 'a io = "run \<Rightarrow> (exn + 'a) \<times> run"

definition ret :: "'a \<Rightarrow> 'a io" where
  "ret x s = (Inr x, s)"

definition throw :: "exn \<Rightarrow> 'a io" where
  "throw e s = (Inl e, s)"

definition lift :: "exn + 'a \<Rightarrow> 'a io" where
  "lift r s = (r, s)"

definition bnd :: "'a io \<Rightarrow> ('a \<Rightarrow> 'b io) \<Rightarrow> 'b io" where
  "bnd m f s = (case m s of (Inl e, s') \<Rightarrow> (Inl e, s') | (Inr x, s') \<Rightarrow> f x s')"

text \<open>\<^verbatim>\<open>try: m except Exception as e: h e\<close>\<close>

definition try_except :: "'a io \<Rightarrow> (exn \<Rightarrow> 'a io) \<Rightarrow> 'a io" where
  "try_except m h s = (case m s of (Inl e, s') \<Rightarrow> h e s' | (Inr x, s') \<Rightarrow> (Inr x, s'))"

definition emit :: "event \<Rightarrow> unit io" where
  "emit ev s = (Inr (), Run (calls s) (trace s @ [ev]))"

definition http :: "network \<Rightarrow> request \<Rightarrow> response io" where
  "http net rq s =
     (let s' = Run (Suc (calls s)) (trace s @ [Sent rq])
      in case net (calls s) of
           Unreachable why \<Rightarrow> (Inl (RequestException why), s')
         | Answer r \<Rightarrow> (Inr r, s'))"

text \<open>\<^verbatim>\<open>response.json()\<close>\<close>

definition response_json :: "response \<Rightarrow> json io" where
  "response_json r = (case body_json r of None \<Rightarrow> throw JSONDecodeError | Some j \<Rightarrow> ret j)"

text \<open>\<^verbatim>\<open>response.raise_for_status()\<close>: raises for the 4xx and 5xx codes.\<close>

definition raise_for_status :: "response \<Rightarrow> unit io" where
  "raise_for_status r =
     (if 400 \<le> status_code r \<and> status_code r < 600 then throw (HTTPError (status_code r)) else ret ())"

section \<open>The libraries\<close>

text \<open>
  Key handling, signing and the transaction codec are not code of this program
  (\<^verbatim>\<open>base58\<close>, \<^verbatim>\<open>base64\<close>, \<^verbatim>\<open>solders\<close>), nor are the interpreter's float parser and the
  C library's \<^verbatim>\<open>pow\<close>: they are parameters of the model. A versioned transaction is
  modelled as \<^verbatim>\<open>solders\<close> presents it: a message and the list of its signatures;
  \<^verbatim>\<open>VersionedTransaction.populate\<close> builds one from the two.
\<close>

type_synonym bytes = "8 word list"

record ('sg, 'msg) versioned_transaction =
  signatures :: "'sg list"
  message :: "'msg"

definition populate :: "'msg \<Rightarrow> 'sg list \<Rightarrow> ('sg, 'msg) versioned_transaction" where
  "populate m sigs = \<lparr>signatures = sigs, message = m\<rparr>"

record ('kp, 'sg, 'msg) library =
  b58decode :: "string \<Rightarrow> exn + bytes"
  keypair_from_bytes :: "bytes \<Rightarrow> exn + 'kp"
  pubkey_str :: "'kp \<Rightarrow> string"
  sign_message :: "'kp \<Rightarrow> bytes \<Rightarrow> 'sg"
  b64decode :: "string \<Rightarrow> exn + bytes"
  b64encode :: "bytes \<Rightarrow> string"
  tx_from_bytes :: "bytes \<Rightarrow> exn + ('sg, 'msg) versioned_transaction"
  tx_bytes :: "('sg, 'msg) versioned_transaction \<Rightarrow> bytes"
  message_bytes :: "'msg \<Rightarrow> bytes"
  float_of_str :: "string \<Rightarrow> pyfloat option"
  float_pow :: "pyfloat \<Rightarrow> exn + pyfloat"


section \<open>The program\<close>

definition HELIUS_URL :: string where
  "HELIUS_URL = ''https://mainnet.helius-rpc.com/?api-key=2ea68573-e4c1-48ec-a2bd-7baa385c7698''"

definition SOL_ADDRESS :: string where
  "SOL_ADDRESS = ''So11111111111111111111111111111111111111112''"

text \<open>The JSON-RPC envelope that every RPC request of the program writes out literally.\<close>

definition rpc_request :: "string \<Rightarrow> json list \<Rightarrow> json" where
  "rpc_request method params =
     JObj [(''jsonrpc'', JStr ''2.0''), (''id'', JNum (PInt 1)),
           (''method'', JStr method), (''params'', JArr params)]"

subsection \<open>\<^verbatim>\<open>get_sol_balance\<close>\<close>

text \<open>
  The body of the \<^verbatim>\<open>try\<close>: \<open>Some v\<close> when it executes \<^verbatim>\<open>return v\<close>, \<open>None\<close> when
  control falls through to the \<^verbatim>\<open>return 0\<close> after the handler.
\<close>

definition get_sol_balance_try ::
  "network \<Rightarrow> ('kp, 'sg, 'msg) library \<Rightarrow> string \<Rightarrow> pynum option io" where
  "get_sol_balance_try net lib public_key =
     bnd (http net (HttpPost HELIUS_URL (rpc_request ''getBalance'' [JStr public_key]) [])) (\<lambda>response.
     if status_code response = 200 then
       bnd (response_json response) (\<lambda>result.
       bnd (lift (py_in ''result'' result)) (\<lambda>has_result.
       if has_result then
         bnd (lift (subscript result ''result'')) (\<lambda>r.
         bnd (lift (subscript r ''value'')) (\<lambda>v.
         bnd (lift (py_float (float_of_str lib) v)) (\<lambda>f.
         bnd (lift (fl_div f (Fin 1000000000))) (\<lambda>q.
         ret (Some (PFloat q))))))
       else ret None))
     else ret None)"

definition get_sol_balance ::
  "network \<Rightarrow> ('kp, 'sg, 'msg) library \<Rightarrow> string \<Rightarrow> pynum io" where
  "get_sol_balance net lib public_key =
     bnd (try_except (get_sol_balance_try net lib public_key)
            (\<lambda>e. bnd (emit (Logged ERROR [Lit ''Failed to get SOL balance: '', OfExn e])) (\<lambda>_.
                 ret None)))
       (\<lambda>returned. case returned of Some v \<Rightarrow> ret v | None \<Rightarrow> ret (PInt 0))"

subsection \<open>\<^verbatim>\<open>wait_for_transaction_confirmation\<close>\<close>

text \<open>
  One pass through the \<^verbatim>\<open>try\<close> of the loop body: \<open>Some b\<close> when it returns \<open>b\<close> from
  the function, \<open>None\<close> when it falls through to the sleep.
\<close>

definition poll_try :: "network \<Rightarrow> json \<Rightarrow> bool option io" where
  "poll_try net signature =
     bnd (http net (HttpPost HELIUS_URL
            (rpc_request ''getTransaction''
               [signature, JObj [(''maxSupportedTransactionVersion'', JNum (PInt 0))]]) [])) (\<lambda>response.
     if status_code response = 200 then
       bnd (response_json response) (\<lambda>j.
       bnd (lift (py_get j ''result'' JNull)) (\<lambda>result.
       if truthy result then
         bnd (lift (py_get result ''meta'' (JObj []))) (\<lambda>meta.
         bnd (lift (py_get meta ''err'' JNull)) (\<lambda>err.
         if err = JNull then ret (Some True)
         else
           bnd (lift (subscript result ''meta'')) (\<lambda>m.
           bnd (lift (subscript m ''err'')) (\<lambda>shown.
           bnd (emit (Logged ERROR [Lit ''Transaction failed: '', OfJson shown])) (\<lambda>_.
           ret (Some False))))))
       else ret None))
     else ret None)"

definition poll_once :: "network \<Rightarrow> json \<Rightarrow> bool option io" where
  "poll_once net signature =
     try_except (poll_try net signature)
       (\<lambda>e. bnd (emit (Logged WARNING [Lit ''Error checking transaction status: '', OfExn e])) (\<lambda>_.
            ret None))"

text \<open>The \<^verbatim>\<open>for _ in range(max_retries)\<close> loop, by the number of iterations left.\<close>

fun poll_loop :: "network \<Rightarrow> json \<Rightarrow> nat \<Rightarrow> bool io" where
  "poll_loop net signature 0 = ret False"
| "poll_loop net signature (Suc n) =
     bnd (poll_once net signature) (\<lambda>returned.
     case returned of
       Some b \<Rightarrow> ret b
     | None \<Rightarrow> bnd (emit (Slept 1)) (\<lambda>_. poll_loop net signature n))"

text \<open>\<^verbatim>\<open>range(max_retries)\<close> is empty for a negative count.\<close>

definition wait_for_transaction_confirmation :: "network \<Rightarrow> json \<Rightarrow> int \<Rightarrow> bool io" where
  "wait_for_transaction_confirmation net signature max_retries =
     poll_loop net signature (nat max_retries)"

text \<open>The call with \<^verbatim>\<open>max_retries\<close> left to its default.\<close>

definition wait_for_transaction_confirmation_default :: "network \<Rightarrow> json \<Rightarrow> bool io" where
  "wait_for_transaction_confirmation_default net signature =
     wait_for_transaction_confirmation net signature 30"

subsection \<open>\<^verbatim>\<open>get_quote\<close>, \<^verbatim>\<open>create_swap_data\<close>, \<^verbatim>\<open>send_transaction\<close>\<close>

definition quote_url :: "string \<Rightarrow> string \<Rightarrow> string \<Rightarrow> string" where
  "quote_url input_mint output_mint amount =
     ''https://quote-api.jup.ag/v6/quote?inputMint='' @ input_mint @ ''&outputMint='' @ output_mint
       @ ''&amount='' @ amount @ ''&restrictIntermediateTokens=true''"

definition get_quote :: "network \<Rightarrow> string \<Rightarrow> string \<Rightarrow> string \<Rightarrow> json io" where
  "get_quote net input_mint output_mint amount =
     try_except
       (bnd (http net (HttpGet (quote_url input_mint output_mint amount))) (\<lambda>response.
        bnd (raise_for_status response) (\<lambda>_.
        response_json response)))
       (\<lambda>e. bnd (emit (Logged ERROR [Lit ''Quote failed: '', OfExn e])) (\<lambda>_. throw e))"

definition create_swap_data :: "json \<Rightarrow> string \<Rightarrow> json" where
  "create_swap_data quote_response sender_public_key =
     JObj [(''quoteResponse'', quote_response),
           (''userPublicKey'', JStr sender_public_key),
           (''wrapUnwrapSOL'', JBool True),
           (''useVersionedTransaction'', JBool True),
           (''dynamicComputeUnitLimit'', JBool True),
           (''dynamicSlippage'', JObj [(''maxBps'', JNum (PInt 300))]),
           (''prioritizationFeeLamports'',
              JObj [(''priorityLevelWithMaxLamports'',
                       JObj [(''maxLamports'', JNum (PInt 10000000)),
                             (''priorityLevel'', JStr ''veryHigh''),
                             (''global'', JBool False)])])]"

definition relay_url :: string where
  "relay_url = ''https://worker.jup.ag/send-transaction''"

definition json_headers :: "(string \<times> string) list" where
  "json_headers = [(''Content-Type'', ''application/json'')]"

definition send_rpc_request :: "string \<Rightarrow> json" where
  "send_rpc_request encoded_tx =
     rpc_request ''sendTransaction''
       [JStr encoded_tx,
        JObj [(''encoding'', JStr ''base64''), (''skipPreflight'', JBool True),
              (''maxRetries'', JNum (PInt 3))]]"

definition send_transaction_try :: "network \<Rightarrow> string \<Rightarrow> json io" where
  "send_transaction_try net encoded_tx =
     bnd (http net (HttpPost relay_url (JObj [(''transaction'', JStr encoded_tx)]) json_headers)) (\<lambda>send_response.
     if status_code send_response = 200 then
       bnd (response_json send_response) (\<lambda>j. lift (py_get j ''txid'' JNull))
     else
       bnd (http net (HttpPost HELIUS_URL (send_rpc_request encoded_tx) json_headers)) (\<lambda>response.
       if status_code response \<noteq> 200 then
         throw (Exception [Lit ''Send failed: '', Lit (body_text response)])
       else
         bnd (response_json response) (\<lambda>result.
         bnd (lift (py_in ''error'' result)) (\<lambda>has_error.
         if has_error then throw (Exception [Lit ''Send failed: '', OfJson result])
         else lift (subscript result ''result'')))))"

definition send_transaction :: "network \<Rightarrow> string \<Rightarrow> json io" where
  "send_transaction net encoded_tx =
     try_except (send_transaction_try net encoded_tx)
       (\<lambda>e. bnd (emit (Logged ERROR [Lit ''Failed to send transaction: '', OfExn e])) (\<lambda>_. throw e))"


subsection \<open>The signing step\<close>

text \<open>
  Lines 183--188 of \<^verbatim>\<open>buy_tokens\<close> and, word for word, lines 265--270 of
  \<^verbatim>\<open>sell_tokens\<close>: decode the blob, sign the bytes of the decoded transaction's message,
  build a transaction from that message and the one signature, encode it. Only a string
  can be decoded; the step calls the libraries and nothing else.
\<close>

definition sign_swap_transaction ::
  "('kp, 'sg, 'msg) library \<Rightarrow> 'kp \<Rightarrow> json \<Rightarrow> exn + string" where
  "sign_swap_transaction lib sender_keypair swap_instruction =
     (case swap_instruction of
        JStr blob \<Rightarrow>
          (case b64decode lib blob of
             Inl e \<Rightarrow> Inl e
           | Inr raw \<Rightarrow>
               (case tx_from_bytes lib raw of
                  Inl e \<Rightarrow> Inl e
                | Inr unsigned_tx \<Rightarrow>
                    let signature = sign_message lib sender_keypair (message_bytes lib (message unsigned_tx));
                        signed_tx = populate (message unsigned_tx) [signature]
                    in Inr (b64encode lib (tx_bytes lib signed_tx))))
      | _ \<Rightarrow> Inl TypeError)"

subsection \<open>\<^verbatim>\<open>buy_tokens\<close>\<close>

definition swap_url :: string where
  "swap_url = ''https://quote-api.jup.ag/v6/swap''"

definition buy_tokens_try ::
  "network \<Rightarrow> ('kp, 'sg, 'msg) library \<Rightarrow> string \<Rightarrow> pynum \<Rightarrow> string \<Rightarrow> json io" where
  "buy_tokens_try net lib contract_address amount private_key =
     bnd (lift (b58decode lib private_key)) (\<lambda>private_key_bytes.
     bnd (lift (keypair_from_bytes lib private_key_bytes)) (\<lambda>sender_keypair.
     bnd (ret (pubkey_str lib sender_keypair)) (\<lambda>sender_public_key.
     bnd (get_sol_balance net lib sender_public_key) (\<lambda>sol_balance.
     if num_lt sol_balance amount then
       throw (Exception [Lit ''Insufficient SOL balance. You have '', OfNum sol_balance,
                         Lit '' SOL but trying to spend '', OfNum amount, Lit '' SOL''])
     else
       bnd (lift (num_mul amount (PInt (10 ^ 9)))) (\<lambda>product.
       bnd (lift (py_int product)) (\<lambda>truncated.
       bnd (ret (py_str_int truncated)) (\<lambda>amount_in_lamports.
       bnd (get_quote net SOL_ADDRESS contract_address amount_in_lamports) (\<lambda>quote_response.
       bnd (ret (create_swap_data quote_response sender_public_key)) (\<lambda>swap_data.
       bnd (http net (HttpPost swap_url swap_data [])) (\<lambda>swap_response.
       if status_code swap_response \<noteq> 200 then
         throw (Exception [Lit ''Swap transaction failed: '', Lit (body_text swap_response)])
       else
         bnd (response_json swap_response) (\<lambda>swap_json.
         bnd (lift (subscript swap_json ''swapTransaction'')) (\<lambda>swap_instruction.
         bnd (lift (sign_swap_transaction lib sender_keypair swap_instruction)) (\<lambda>encoded_tx.
         bnd (send_transaction net encoded_tx) (\<lambda>tx_signature.
         bnd (emit (Printed [Lit ''Transaction submitted. Waiting for confirmation...''])) (\<lambda>_.
         bnd (wait_for_transaction_confirmation_default net tx_signature) (\<lambda>confirmed.
         if confirmed then
           bnd (emit (Printed [Lit ''Transaction confirmed! View details: https://solscan.io/tx/'',
                               OfJson tx_signature])) (\<lambda>_.
           ret tx_signature)
         else
           bnd (emit (Printed [Lit ''Transaction failed or timed out!''])) (\<lambda>_.
           ret JNull)))))))))))))))))"

text \<open>The function returns the signature, or \<^verbatim>\<open>None\<close> (here \<open>JNull\<close>); it raises nothing.\<close>

definition buy_tokens ::
  "network \<Rightarrow> ('kp, 'sg, 'msg) library \<Rightarrow> string \<Rightarrow> pynum \<Rightarrow> string \<Rightarrow> json io" where
  "buy_tokens net lib contract_address amount private_key =
     try_except (buy_tokens_try net lib contract_address amount private_key)
       (\<lambda>e. bnd (emit (Printed [Lit ''Error: '', OfExn e])) (\<lambda>_. ret JNull))"

subsection \<open>\<^verbatim>\<open>sell_tokens\<close>\<close>

fun path :: "json \<Rightarrow> string list \<Rightarrow> exn + json" where
  "path j [] = Inr j"
| "path j (k # ks) = (case subscript j k of Inl e \<Rightarrow> Inl e | Inr v \<Rightarrow> path v ks)"

text \<open>\<^verbatim>\<open>"result" not in data or not data["result"]["value"]\<close>\<close>

definition no_token_account :: "json \<Rightarrow> exn + bool" where
  "no_token_account data =
     (case py_in ''result'' data of
        Inl e \<Rightarrow> Inl e
      | Inr has_result \<Rightarrow>
          if \<not> has_result then Inr True
          else case path data [''result'', ''value''] of
                 Inl e \<Rightarrow> Inl e
               | Inr v \<Rightarrow> Inr (\<not> truthy v))"

text \<open>\<^verbatim>\<open>data["result"]["value"][0]\<close> followed by the given keys.\<close>

definition first_account :: "json \<Rightarrow> string list \<Rightarrow> exn + json" where
  "first_account data ks =
     (case path data [''result'', ''value''] of
        Inl e \<Rightarrow> Inl e
      | Inr v \<Rightarrow> (case subscript0 v of Inl e \<Rightarrow> Inl e | Inr a \<Rightarrow> path a ks))"

definition token_amount_keys :: "string list" where
  "token_amount_keys = [''account'', ''data'', ''parsed'', ''info'', ''tokenAmount'']"

text \<open>\<^verbatim>\<open>float(a) / (10 ** d)\<close>, the operands evaluated left to right.\<close>

definition scaled_balance :: "('kp, 'sg, 'msg) library \<Rightarrow> json \<Rightarrow> json \<Rightarrow> exn + pyfloat" where
  "scaled_balance lib a d =
     (case py_float (float_of_str lib) a of
        Inl e \<Rightarrow> Inl e
      | Inr f \<Rightarrow> (case pow10 (float_pow lib) d of Inl e \<Rightarrow> Inl e | Inr scale \<Rightarrow> float_div_num f scale))"

text \<open>Lines 235--236: a zero or too large request becomes the whole balance.\<close>

definition resolve_amount :: "pynum \<Rightarrow> pyfloat \<Rightarrow> pynum" where
  "resolve_amount amount current_balance =
     (if num_eq amount (PInt 0) \<or> num_gt amount (PFloat current_balance)
      then PFloat current_balance else amount)"

text \<open>The float literal \<^verbatim>\<open>0.002\<close>.\<close>

definition fee_threshold :: pyfloat where
  "fee_threshold = Fin (nearest_double (2 / 1000))"

text \<open>Lines 280--297: the balance check after a confirmed sale; it only prints.\<close>

definition verify_balance ::
  "network \<Rightarrow> ('kp, 'sg, 'msg) library \<Rightarrow> json \<Rightarrow> json \<Rightarrow> pyfloat \<Rightarrow> unit io" where
  "verify_balance net lib token_account token_decimals current_balance =
     bnd (emit (Slept 2)) (\<lambda>_.
     bnd (http net (HttpPost HELIUS_URL (rpc_request ''getTokenAccountBalance'' [token_account]) [])) (\<lambda>verify_response.
     bnd (response_json verify_response) (\<lambda>verify_json.
     bnd (lift (py_in ''result'' verify_json)) (\<lambda>has_result.
     if has_result then
       bnd (lift (path verify_json [''result'', ''value'', ''amount''])) (\<lambda>new_amount.
       bnd (lift (scaled_balance lib new_amount token_decimals)) (\<lambda>new_balance.
       if fl_lt new_balance current_balance then
         emit (Printed [Lit ''Balance reduced from '', OfNum (PFloat current_balance), Lit '' to '',
                        OfNum (PFloat new_balance)])
       else
         emit (Printed [Lit ''Warning: Token balance did not decrease as expected''])))
     else ret ()))))"

text \<open>Lines 235--306, once the token account, its decimals and its balance are known.\<close>

definition sell_discovered ::
  "network \<Rightarrow> ('kp, 'sg, 'msg) library \<Rightarrow> string \<Rightarrow> pynum \<Rightarrow> 'kp \<Rightarrow> json \<Rightarrow> json \<Rightarrow> pyfloat \<Rightarrow> json io" where
  "sell_discovered net lib contract_address requested sender_keypair token_account token_decimals current_balance =
     bnd (ret (pubkey_str lib sender_keypair)) (\<lambda>sender_public_key.
     bnd (ret (resolve_amount requested current_balance)) (\<lambda>amount.
     if num_le amount (PInt 0) then throw (Exception [Lit ''No tokens to sell''])
     else
       bnd (emit (Printed [Lit ''Selling '', OfNum amount, Lit '' tokens...''])) (\<lambda>_.
       bnd (get_sol_balance net lib sender_public_key) (\<lambda>sol_balance.
       if num_lt sol_balance (PFloat fee_threshold) then
         throw (Exception [Lit ''Insufficient SOL balance for transaction fees. You have '',
                           OfNum sol_balance, Lit '' SOL''])
       else
         bnd (lift (pow10 (float_pow lib) token_decimals)) (\<lambda>scale.
         bnd (lift (num_mul amount scale)) (\<lambda>product.
         bnd (lift (py_int product)) (\<lambda>truncated.
         bnd (ret (py_str_int truncated)) (\<lambda>amount_in_smallest_unit.
         bnd (get_quote net contract_address SOL_ADDRESS amount_in_smallest_unit) (\<lambda>quote_response.
         bnd (ret (create_swap_data quote_response sender_public_key)) (\<lambda>swap_data.
         bnd (http net (HttpPost swap_url swap_data [])) (\<lambda>swap_response.
         if status_code swap_response \<noteq> 200 then
           throw (Exception [Lit ''Swap transaction failed: '', Lit (body_text swap_response)])
         else
           bnd (response_json swap_response) (\<lambda>swap_json.
           bnd (lift (subscript swap_json ''swapTransaction'')) (\<lambda>swap_instruction.
           bnd (lift (sign_swap_transaction lib sender_keypair swap_instruction)) (\<lambda>encoded_tx.
           bnd (send_transaction net encoded_tx) (\<lambda>tx_signature.
           bnd (emit (Printed [Lit ''Transaction submitted. Waiting for confirmation...''])) (\<lambda>_.
           bnd (wait_for_transaction_confirmation_default net tx_signature) (\<lambda>confirmed.
           if confirmed then
             bnd (emit (Printed [Lit ''Transaction confirmed! View details: https://solscan.io/tx/'',
                                 OfJson tx_signature])) (\<lambda>_.
             bnd (verify_balance net lib token_account token_decimals current_balance) (\<lambda>_.
             ret tx_signature))
           else
             bnd (emit (Printed [Lit ''Transaction failed or timed out!''])) (\<lambda>_.
             ret JNull))))))))))))))))))"

definition sell_tokens_try ::
  "network \<Rightarrow> ('kp, 'sg, 'msg) library \<Rightarrow> string \<Rightarrow> pynum \<Rightarrow> string \<Rightarrow> json io" where
  "sell_tokens_try net lib contract_address amount private_key =
     bnd (lift (b58decode lib private_key)) (\<lambda>private_key_bytes.
     bnd (lift (keypair_from_bytes lib private_key_bytes)) (\<lambda>sender_keypair.
     bnd (ret (pubkey_str lib sender_keypair)) (\<lambda>sender_public_key.
     bnd (http net (HttpPost HELIUS_URL
            (rpc_request ''getTokenAccountsByOwner''
               [JStr sender_public_key, JObj [(''mint'', JStr contract_address)],
                JObj [(''encoding'', JStr ''jsonParsed'')]]) [])) (\<lambda>response.
     bnd (response_json response) (\<lambda>data.
     bnd (lift (no_token_account data)) (\<lambda>none_found.
     if none_found then throw (Exception [Lit ''No token account found''])
     else
       bnd (lift (first_account data [''pubkey''])) (\<lambda>token_account.
       bnd (lift (first_account data (token_amount_keys @ [''decimals'']))) (\<lambda>token_decimals.
       bnd (lift (first_account data (token_amount_keys @ [''amount'']))) (\<lambda>raw_amount.
       bnd (lift (scaled_balance lib raw_amount token_decimals)) (\<lambda>current_balance.
       sell_discovered net lib contract_address amount sender_keypair token_account token_decimals
         current_balance))))))))))"

definition sell_tokens ::
  "network \<Rightarrow> ('kp, 'sg, 'msg) library \<Rightarrow> string \<Rightarrow> pynum \<Rightarrow> string \<Rightarrow> json io" where
  "sell_tokens net lib contract_address amount private_key =
     try_except (sell_tokens_try net lib contract_address amount private_key)
       (\<lambda>e. bnd (emit (Printed [Lit ''Error: '', OfExn e])) (\<lambda>_. ret JNull))"

text \<open>
  \<^verbatim>\<open>main\<close>, the interactive menu that reads the key, the choice, the address and the
  amount and calls the two operations, is not modelled: no property below is about it.
\<close>


section \<open>Requests and readings used to state the properties\<close>

definition balance_request :: "string \<Rightarrow> request" where
  "balance_request public_key = HttpPost HELIUS_URL (rpc_request ''getBalance'' [JStr public_key]) []"

definition poll_request :: "json \<Rightarrow> request" where
  "poll_request signature =
     HttpPost HELIUS_URL
       (rpc_request ''getTransaction''
          [signature, JObj [(''maxSupportedTransactionVersion'', JNum (PInt 0))]]) []"

definition quote_request :: "string \<Rightarrow> string \<Rightarrow> string \<Rightarrow> request" where
  "quote_request input_mint output_mint amount = HttpGet (quote_url input_mint output_mint amount)"

definition swap_request :: "json \<Rightarrow> string \<Rightarrow> request" where
  "swap_request quote_response sender_public_key =
     HttpPost swap_url (create_swap_data quote_response sender_public_key) []"

definition relay_request :: "string \<Rightarrow> request" where
  "relay_request encoded_tx = HttpPost relay_url (JObj [(''transaction'', JStr encoded_tx)]) json_headers"


text \<open>The state after one more request.\<close>

definition sent :: "request \<Rightarrow> run \<Rightarrow> run" where
  "sent rq s = Run (Suc (calls s)) (trace s @ [Sent rq])"

definition logged :: "event list \<Rightarrow> run \<Rightarrow> run" where
  "logged evs s = Run (calls s) (trace s @ evs)"

text \<open>An action only adds to the record of the run.\<close>

definition grows :: "'a io \<Rightarrow> bool" where
  "grows m \<longleftrightarrow> (\<forall>s. \<exists>evs. trace (snd (m s)) = trace s @ evs)"

subsection \<open>Concrete networks and a concrete library, for the examples\<close>

definition scripted :: "outcome list \<Rightarrow> network" where
  "scripted xs n = (if n < length xs then xs ! n else Unreachable ''no route to host'')"

definition ok :: "json \<Rightarrow> outcome" where
  "ok j = Answer \<lparr>status_code = 200, body_text = [], body_json = Some j\<rparr>"

definition failed :: "int \<Rightarrow> string \<Rightarrow> outcome" where
  "failed code why = Answer \<lparr>status_code = code, body_text = why, body_json = None\<rparr>"

definition start :: run where
  "start = Run 0 []"

text \<open>
  A stand-in for the libraries. A key is its bytes and a signature is the key followed by
  the signed bytes. A transaction is written as one character, the digit that counts the
  bytes of its signature (\<^verbatim>\<open>0\<close> when it has none), then the signature, then its message,
  and is read back the same way. A string of decimal digits is read as the float nearest
  to the number it denotes; no other string is read, and no power is computed.
\<close>

text \<open>The number that a string of decimal digits denotes, to read back what \<open>dec_digits\<close> writes.\<close>

definition digit_of :: "char \<Rightarrow> nat" where
  "digit_of c = of_char c - 48"

definition dec_value :: "string \<Rightarrow> nat" where
  "dec_value s = foldl (\<lambda>acc c. 10 * acc + digit_of c) 0 s"

definition demo_from_bytes :: "bytes \<Rightarrow> exn + (bytes, bytes) versioned_transaction" where
  "demo_from_bytes raw =
     (case raw of
        [] \<Rightarrow> Inl (LibraryError ''empty transaction'')
      | n # rest \<Rightarrow>
          Inr \<lparr>signatures = (if unat n \<le> 48 then [] else [take (unat n - 48) rest]),
               message = drop (unat n - 48) rest\<rparr>)"

definition demo_bytes :: "(bytes, bytes) versioned_transaction \<Rightarrow> bytes" where
  "demo_bytes t = of_nat (48 + length (concat (signatures t))) # concat (signatures t) @ message t"

definition demo_float :: "string \<Rightarrow> pyfloat option" where
  "demo_float s =
     (if s \<noteq> [] \<and> list_all (\<lambda>c. c \<in> set ''0123456789'') s
      then Some (round_double (of_nat (dec_value s))) else None)"

definition demo_library :: "(bytes, bytes, bytes) library" where
  "demo_library = \<lparr>
     b58decode = (\<lambda>s. Inr (map (\<lambda>c. of_nat (of_char c)) s)),
     keypair_from_bytes = (\<lambda>b. if b = [] then Inl ValueError else Inr b),
     pubkey_str = (\<lambda>kp. ''Wallet''),
     sign_message = (\<lambda>kp m. kp @ m),
     b64decode = (\<lambda>s. Inr (map (\<lambda>c. of_nat (of_char c)) s)),
     b64encode = (\<lambda>b. map (\<lambda>w. char_of (unat w)) b),
     tx_from_bytes = demo_from_bytes,
     tx_bytes = demo_bytes,
     message_bytes = (\<lambda>m. m),
     float_of_str = demo_float,
     float_pow = (\<lambda>x. Inl OverflowError)\<rparr>"

definition balance_answer :: "int \<Rightarrow> outcome" where
  "balance_answer v = ok (JObj [(''result'', JObj [(''value'', JNum (PInt v))])])"

subsection \<open>Reading one poll of the confirmation loop\<close>









subsection \<open>How far a run gets\<close>

text \<open>
  \<open>reaches m s evs\<close>: the record of the run of \<open>m\<close> from \<open>s\<close> begins with \<open>evs\<close>.
  \<open>starts m rq\<close>: whatever the state, the first thing \<open>m\<close> does is to send \<open>rq\<close>.
  \<open>key_of\<close> is the key derivation at the head of both operations, \<open>lamports_of\<close> the amount
  conversion of \<^verbatim>\<open>buy_tokens\<close>, \<open>quoted\<close> the quote that \<^verbatim>\<open>get_quote\<close> returns for an
  outcome, \<open>swap_blob\<close> the blob the swap-build answer carries, and \<open>insufficient\<close> the
  exception of the balance check.
\<close>

definition reaches :: "'a io \<Rightarrow> run \<Rightarrow> event list \<Rightarrow> bool" where
  "reaches m s evs \<longleftrightarrow> (\<exists>more. trace (snd (m s)) = evs @ more)"

definition key_of :: "('kp, 'sg, 'msg) library \<Rightarrow> string \<Rightarrow> exn + 'kp" where
  "key_of lib private_key =
     (case b58decode lib private_key of Inl e \<Rightarrow> Inl e | Inr key_bytes \<Rightarrow> keypair_from_bytes lib key_bytes)"

definition lamports_of :: "pynum \<Rightarrow> exn + int" where
  "lamports_of amount = (case num_mul amount (PInt (10 ^ 9)) of Inl e \<Rightarrow> Inl e | Inr product \<Rightarrow> py_int product)"

definition quoted :: "outcome \<Rightarrow> json option" where
  "quoted out =
     (case out of
        Unreachable why \<Rightarrow> None
      | Answer r \<Rightarrow> if 400 \<le> status_code r \<and> status_code r < 600 then None else body_json r)"

definition swap_blob :: "outcome \<Rightarrow> json option" where
  "swap_blob out =
     (case out of
        Unreachable why \<Rightarrow> None
      | Answer r \<Rightarrow>
          if status_code r \<noteq> 200 then None
          else case body_json r of
                 None \<Rightarrow> None
               | Some j \<Rightarrow> (case subscript j ''swapTransaction'' of Inl e \<Rightarrow> None | Inr blob \<Rightarrow> Some blob))"

definition insufficient :: "pynum \<Rightarrow> pynum \<Rightarrow> exn" where
  "insufficient sol_balance amount =
     Exception [Lit ''Insufficient SOL balance. You have '', OfNum sol_balance,
                Lit '' SOL but trying to spend '', OfNum amount, Lit '' SOL'']"

definition starts :: "'a io \<Rightarrow> request \<Rightarrow> bool" where
  "starts m rq \<longleftrightarrow> (\<forall>s. \<exists>more. trace (snd (m s)) = trace s @ Sent rq # more)"

definition quote_answer :: outcome where
  "quote_answer = ok (JObj [(''outAmount'', JStr ''42'')])"

definition swap_answer :: outcome where
  "swap_answer = ok (JObj [(''swapTransaction'', JStr ''0abc'')])"

definition priority_keys :: "string list" where
  "priority_keys = [''prioritizationFeeLamports'', ''priorityLevelWithMaxLamports'']"





section \<open>Properties\<close>

subsection \<open>Rounding to binary64 is correct rounding\<close>

lemma pow2_powi: "pow2 e = 2 powi e"
  by (simp add: pow2_def power_int_def field_simps)

lemma pow2_pos [simp]: "0 < pow2 e"
  by (simp add: pow2_powi)

lemma pow2_nz [simp]: "pow2 e \<noteq> 0"
  using pow2_pos [of e] by linarith

lemma abs_pow2 [simp]: "\<bar>pow2 e\<bar> = pow2 e"
  using pow2_pos [of e] by linarith

lemma pow2_add: "pow2 (a + b) = pow2 a * pow2 b"
  by (simp add: pow2_powi power_int_add)

lemma pow2_mono: "a \<le> b \<Longrightarrow> pow2 a \<le> pow2 b"
  by (simp add: pow2_powi power_int_increasing)

lemma pow2_nat: "pow2 (int n) = 2 ^ n"
  by (simp add: pow2_def)

lemma ilog2_bounds:
  assumes "0 < x"
  shows "pow2 (ilog2 x) \<le> x \<and> x < pow2 (ilog2 x + 1)"
proof -
  obtain p q where pq: "quotient_of x = (p, q)" by (cases "quotient_of x")
  have q: "0 < q" using pq quotient_of_denom_pos by blast
  have x: "x = of_int p / of_int q" using pq quotient_of_div by blast
  have p: "0 < p" using assms q x
    by (simp add: zero_less_divide_iff)
  let ?d = "bitlen p - bitlen q"
  have bp: "2 ^ nat (bitlen p - 1) \<le> p \<and> p < 2 ^ nat (bitlen p)" using bitlen_bounds[OF p] .
  have bq: "2 ^ nat (bitlen q - 1) \<le> q \<and> q < 2 ^ nat (bitlen q)" using bitlen_bounds[OF q] .
  have lp: "1 \<le> bitlen p" using p by (simp add: bitlen_alt_def)
  have lq: "1 \<le> bitlen q" using q by (simp add: bitlen_alt_def)
  have P1: "pow2 (bitlen p - 1) \<le> of_int p"
  proof -
    have "(of_int (2 ^ nat (bitlen p - 1)) :: rat) \<le> of_int p" using bp by (simp only: of_int_le_iff)
    then show ?thesis using lp by (simp add: pow2_def)
  qed
  have P2: "of_int p < pow2 (bitlen p)"
  proof -
    have "(of_int p :: rat) < of_int (2 ^ nat (bitlen p))" using bp by (simp only: of_int_less_iff)
    then show ?thesis using lp by (simp add: pow2_def)
  qed
  have Q1: "pow2 (bitlen q - 1) \<le> of_int q"
  proof -
    have "(of_int (2 ^ nat (bitlen q - 1)) :: rat) \<le> of_int q" using bq by (simp only: of_int_le_iff)
    then show ?thesis using lq by (simp add: pow2_def)
  qed
  have Q2: "of_int q < pow2 (bitlen q)"
  proof -
    have "(of_int q :: rat) < of_int (2 ^ nat (bitlen q))" using bq by (simp only: of_int_less_iff)
    then show ?thesis using lq by (simp add: pow2_def)
  qed
  have qpos: "(0::rat) < of_int q" using q by simp
  have lower: "pow2 (?d - 1) < x"
  proof -
    have "pow2 (?d - 1) * of_int q < pow2 (?d - 1) * pow2 (bitlen q)"
      using Q2 by (simp add: mult_strict_left_mono)
    also have "\<dots> = pow2 (bitlen p - 1)"
      by (simp add: pow2_add [symmetric])
    also have "\<dots> \<le> of_int p" by (rule P1)
    finally show ?thesis using qpos by (simp add: x pos_less_divide_eq)
  qed
  have upper: "x < pow2 (?d + 1)"
  proof -
    have "of_int p < pow2 (bitlen p)" by (rule P2)
    also have "\<dots> = pow2 (?d + 1) * pow2 (bitlen q - 1)"
      by (simp add: pow2_add [symmetric])
    also have "\<dots> \<le> pow2 (?d + 1) * of_int q"
      using Q1 by (simp add: mult_left_mono)
    finally show ?thesis using qpos by (simp add: x pos_divide_less_eq)
  qed
  show ?thesis
  proof (cases "pow2 ?d \<le> x")
    case True
    then have "ilog2 x = ?d" by (simp add: ilog2_def pq Let_def)
    then show ?thesis using True upper by simp
  next
    case False
    then have "ilog2 x = ?d - 1" by (simp add: ilog2_def pq Let_def)
    then show ?thesis using False lower by simp
  qed
qed

lemma round_half_even_int [simp]: "round_half_even (of_int k) = k"
  by (simp add: round_half_even_def)

lemma round_half_even_error: "\<bar>of_int (round_half_even y) - y\<bar> \<le> 1 / 2"
proof -
  have "of_int \<lfloor>y\<rfloor> \<le> y" "y < of_int \<lfloor>y\<rfloor> + 1" by linarith+
  then show ?thesis
    by (auto simp: round_half_even_def Let_def)
qed

lemma ulp_pos [simp]: "0 < ulp x"
  by (simp add: ulp_def)

lemma ulp_nz [simp]: "ulp x \<noteq> 0"
  using ulp_pos [of x] by linarith

lemma abs_ulp [simp]: "\<bar>ulp x\<bar> = ulp x"
  using ulp_pos [of x] by linarith

lemma nearest_double_error: "\<bar>nearest_double x - x\<bar> \<le> ulp x / 2"
proof (cases "x = 0")
  case True then show ?thesis by (simp add: nearest_double_def less_imp_le)
next
  case False
  have "\<bar>nearest_double x - x\<bar> = \<bar>of_int (round_half_even (x / ulp x)) - x / ulp x\<bar> * ulp x"
  proof -
    have "nearest_double x - x = (of_int (round_half_even (x / ulp x)) - x / ulp x) * ulp x"
      using False ulp_nz [of x] by (simp add: nearest_double_def field_simps)
    then show ?thesis by (simp add: abs_mult)
  qed
  also have "\<dots> \<le> 1 / 2 * ulp x"
    by (rule mult_right_mono [OF round_half_even_error]) (simp add: less_imp_le)
  finally show ?thesis by simp
qed


lemma pow2_less_cancel: "pow2 a < pow2 b \<Longrightarrow> a < b"
  using pow2_mono [of b a] by (cases "a < b") auto

lemma pow2_diff: "pow2 (a - b) = pow2 a / pow2 b"
  by (simp add: pow2_powi power_int_diff)

lemma pow2_0 [simp]: "pow2 0 = 1"
  by (simp add: pow2_def)

lemma ulp_normal:
  assumes "pow2 (- 1022) \<le> \<bar>x\<bar>"
  shows "ulp x \<le> \<bar>x\<bar> * pow2 (- 52)"
proof -
  have pos: "0 < \<bar>x\<bar>" using assms pow2_pos [of "- 1022"] by linarith
  have b: "pow2 (ilog2 \<bar>x\<bar>) \<le> \<bar>x\<bar>" "\<bar>x\<bar> < pow2 (ilog2 \<bar>x\<bar> + 1)"
    using ilog2_bounds [OF pos] by auto
  have "pow2 (- 1022) < pow2 (ilog2 \<bar>x\<bar> + 1)" using assms b(2) by linarith
  then have "- 1022 < ilog2 \<bar>x\<bar> + 1" by (rule pow2_less_cancel)
  then have "max (ilog2 \<bar>x\<bar>) (- 1022) = ilog2 \<bar>x\<bar>" by simp
  then have "ulp x = pow2 (ilog2 \<bar>x\<bar>) * pow2 (- 52)"
    by (simp add: ulp_def pow2_add [symmetric])
  also have "\<dots> \<le> \<bar>x\<bar> * pow2 (- 52)"
    using b(1) by (simp add: mult_right_mono less_imp_le)
  finally show ?thesis .
qed

text \<open>A value \<open>m \<sqdot> 2\<^sup>t\<close> with a 53-bit \<open>m\<close> and \<open>t\<close> in range is a double: rounding leaves it.\<close>

lemma nearest_double_representable:
  assumes m: "\<bar>m\<bar> < 2 ^ 53" and t: "- 1074 \<le> t"
  shows "nearest_double (of_int m * pow2 t) = of_int m * pow2 t"
proof (cases "m = 0")
  case True then show ?thesis by (simp add: nearest_double_def)
next
  case False
  let ?x = "of_int m * pow2 t :: rat"
  have x0: "?x \<noteq> 0" using False pow2_pos [of t] by simp
  have pos: "0 < \<bar>?x\<bar>" using x0 by simp
  have b: "pow2 (ilog2 \<bar>?x\<bar>) \<le> \<bar>?x\<bar>" using ilog2_bounds [OF pos] by auto
  have "\<bar>?x\<bar> = of_int \<bar>m\<bar> * pow2 t" by (simp add: abs_mult)
  also have "\<dots> < of_int (2 ^ 53) * pow2 t"
    using m by (intro mult_strict_right_mono) (simp_all only: of_int_less_iff pow2_pos)
  also have "\<dots> = pow2 (53 + t)"
  proof -
    have "(of_int (2 ^ 53) :: rat) = pow2 53" by (simp add: pow2_def)
    then show ?thesis by (simp only: pow2_add)
  qed
  finally have "pow2 (ilog2 \<bar>?x\<bar>) < pow2 (53 + t)" using b by linarith
  then have "ilog2 \<bar>?x\<bar> < 53 + t" by (rule pow2_less_cancel)
  then have e: "0 \<le> t - (max (ilog2 \<bar>?x\<bar>) (- 1022) - 52)" using t by simp
  define k where "k = nat (t - (max (ilog2 \<bar>?x\<bar>) (- 1022) - 52))"
  have "pow2 t / ulp ?x = pow2 (int k)"
    using e by (simp add: ulp_def pow2_diff [symmetric] k_def)
  then have "?x / ulp ?x = of_int m * pow2 (int k)"
    by (simp only: times_divide_eq_right [symmetric])
  then have q: "?x / ulp ?x = of_int (m * 2 ^ k)"
    by (simp add: pow2_nat)
  have "nearest_double ?x = of_int (round_half_even (?x / ulp ?x)) * ulp ?x"
    using x0 by (simp add: nearest_double_def)
  also have "\<dots> = ?x / ulp ?x * ulp ?x"
    by (simp only: q round_half_even_int)
  also have "\<dots> = ?x" using ulp_nz [of ?x] by simp
  finally show ?thesis .
qed

lemma nearest_double_int:
  assumes "\<bar>k\<bar> \<le> 2 ^ 53"
  shows "nearest_double (of_int k) = of_int k"
proof (cases "\<bar>k\<bar> < 2 ^ 53")
  case True
  then show ?thesis using nearest_double_representable [of k 0] by simp
next
  case False
  then have "\<bar>k\<bar> = 2 ^ 53" using assms by linarith
  then consider "k = 2 ^ 53" | "k = - (2 ^ 53)" by linarith
  then show ?thesis
  proof cases
    case 1
    have "nearest_double (of_int (2 ^ 52) * pow2 1) = of_int (2 ^ 52) * pow2 1"
      by (rule nearest_double_representable) simp_all
    then show ?thesis by (simp add: 1 pow2_def)
  next
    case 2
    have "nearest_double (of_int (- (2 ^ 52)) * pow2 1) = of_int (- (2 ^ 52)) * pow2 1"
      by (rule nearest_double_representable) simp_all
    then show ?thesis by (simp add: 2 pow2_def)
  qed
qed

lemma nearest_double_rel:
  assumes "pow2 (- 1022) \<le> \<bar>x\<bar>"
  shows "\<bar>nearest_double x - x\<bar> \<le> \<bar>x\<bar> / 2 ^ 53"
proof -
  have "\<bar>nearest_double x - x\<bar> \<le> ulp x / 2" by (rule nearest_double_error)
  also have "\<dots> \<le> \<bar>x\<bar> * pow2 (- 52) / 2"
    using ulp_normal [OF assms] by simp
  also have "\<dots> = \<bar>x\<bar> / 2 ^ 53" by (simp add: pow2_def)
  finally show ?thesis .
qed

lemma tiny: "pow2 (- 1022) \<le> 1 / 4000000000"
proof -
  have "pow2 (- 1022) \<le> pow2 (- 32)" by (rule pow2_mono) simp
  also have "\<dots> \<le> 1 / 4000000000" by (simp add: pow2_def)
  finally show ?thesis .
qed

lemma balance_accuracy:
  assumes v: "0 \<le> v" "v < 2 ^ 64"
  shows "\<not> overflows (of_int v) \<and>
         (\<exists>y. round_double (nearest_double (of_int v) / 1000000000) = Fin y
              \<and> \<bar>y - of_int v / 1000000000\<bar> \<le> (of_int v / 1000000000) / 2 ^ 51)"
proof (cases "v = 0")
  case True
  then show ?thesis by (simp add: overflows_def nearest_double_def round_double_def)
next
  case False
  define x :: rat where "x = of_int v"
  define w where "w = nearest_double x"
  define z where "z = w / 1000000000"
  define y where "y = nearest_double z"
  have x1: "1 \<le> x" using v False by (simp add: x_def)
  have "v \<le> 2 ^ 64" using v by simp
  then have "(of_int v :: rat) \<le> of_int (2 ^ 64)" by (simp only: of_int_le_iff)
  then have x2: "x \<le> 2 ^ 64" by (simp add: x_def)
  have "pow2 (- 1022) \<le> 1 / 4000000000" by (rule tiny)
  then have xn: "pow2 (- 1022) \<le> \<bar>x\<bar>" using x1 by linarith
  have ew: "\<bar>w - x\<bar> \<le> x / 2 ^ 53"
    using nearest_double_rel [OF xn] x1 by (simp add: w_def)
  have hx: "x / 2 ^ 53 \<le> x / 2" using x1 by (intro divide_left_mono) simp_all
  have w1: "x / 2 \<le> w" and w2: "w \<le> 2 * x"
    using ew hx x1 by linarith+
  have no1: "\<not> overflows x"
    using w1 w2 x1 x2 by (simp add: overflows_def w_def [symmetric] abs_le_iff not_le)
  have z1: "1 / 4000000000 \<le> z" using w1 x1 by (simp add: z_def)
  have zn: "pow2 (- 1022) \<le> \<bar>z\<bar>" using tiny z1 by linarith
  have ey: "\<bar>y - z\<bar> \<le> z / 2 ^ 53"
    using nearest_double_rel [OF zn] z1 by (simp add: y_def)
  have z2: "z \<le> 2 ^ 64" using w2 x2 by (simp add: z_def)
  have hz: "z / 2 ^ 53 \<le> z / 2" using z1 by (intro divide_left_mono) simp_all
  have yz: "\<bar>y - z\<bar> \<le> z / 2" using ey hz by linarith
  have zz: "2 * z \<le> 2 ^ 65" using z2 by simp
  have z0: "0 \<le> z" using z1 by linarith
  have y2: "\<bar>y\<bar> \<le> 2 ^ 65" using yz zz z0 by linarith
  have no2: "\<not> overflows z"
    using y2 by (simp add: overflows_def y_def [symmetric] not_le)
  have "\<bar>y - x / 1000000000\<bar> \<le> \<bar>y - z\<bar> + \<bar>z - x / 1000000000\<bar>" by linarith
  also have "\<bar>z - x / 1000000000\<bar> = \<bar>w - x\<bar> / 1000000000"
    by (simp add: z_def diff_divide_distrib [symmetric])
  also have "\<bar>y - z\<bar> + \<bar>w - x\<bar> / 1000000000 \<le> z / 2 ^ 53 + (x / 2 ^ 53) / 1000000000"
    using ey ew by (simp add: add_mono divide_right_mono)
  also have "\<dots> \<le> (2 * x / 1000000000) / 2 ^ 53 + (x / 2 ^ 53) / 1000000000"
    using w2 by (simp add: z_def divide_right_mono)
  also have "\<dots> \<le> (x / 1000000000) / 2 ^ 51"
    using x1 by (simp add: field_simps)
  finally have acc: "\<bar>y - x / 1000000000\<bar> \<le> (x / 1000000000) / 2 ^ 51" by simp
  have "round_double z = Fin y" using no2 by (simp add: round_double_def y_def)
  then show ?thesis using no1 acc by (auto simp: x_def z_def w_def)
qed

subsection \<open>Running the actions\<close>

lemma bnd_ret [simp]: "bnd (ret x) f = f x"
  by (rule ext) (simp add: bnd_def ret_def)

lemma bnd_throw [simp]: "bnd (throw e) f = throw e"
  by (rule ext) (simp add: bnd_def throw_def)

lemma bnd_lift_Inr [simp]: "bnd (lift (Inr x)) f = f x"
  by (rule ext) (simp add: bnd_def lift_def)

lemma bnd_lift_Inl [simp]: "bnd (lift (Inl e)) f = throw e"
  by (rule ext) (simp add: bnd_def lift_def throw_def)

lemma bnd_emit [simp]: "bnd (emit ev) f s = f () (logged [ev] s)"
  by (simp add: bnd_def emit_def logged_def)

lemma bnd_http:
  "bnd (http net rq) f s =
     (case net (calls s) of
        Unreachable why \<Rightarrow> (Inl (RequestException why), sent rq s)
      | Answer r \<Rightarrow> f r (sent rq s))"
  by (simp add: bnd_def http_def sent_def Let_def split: outcome.splits)

lemma bnd_response_json:
  "bnd (response_json r) f =
     (case body_json r of None \<Rightarrow> throw JSONDecodeError | Some j \<Rightarrow> f j)"
  by (simp add: response_json_def split: option.splits)

lemma try_except_apply:
  "try_except m h s = (case m s of (Inl e, s') \<Rightarrow> h e s' | (Inr x, s') \<Rightarrow> (Inr x, s'))"
  by (simp add: try_except_def)

lemma ret_apply [simp]: "ret x s = (Inr x, s)"
  by (simp add: ret_def)

lemma throw_apply [simp]: "throw e s = (Inl e, s)"
  by (simp add: throw_def)

lemma calls_sent [simp]: "calls (sent rq s) = Suc (calls s)"
  by (simp add: sent_def)

lemma trace_sent [simp]: "trace (sent rq s) = trace s @ [Sent rq]"
  by (simp add: sent_def)

lemma calls_logged [simp]: "calls (logged evs s) = calls s"
  by (simp add: logged_def)

lemma trace_logged [simp]: "trace (logged evs s) = trace s @ evs"
  by (simp add: logged_def)

lemma get_sol_balance_try_unfold:
  "get_sol_balance_try net lib pk s =
     (case net (calls s) of
        Unreachable why \<Rightarrow> (Inl (RequestException why), sent (balance_request pk) s)
      | Answer r \<Rightarrow>
          (if status_code r = 200 then
             (case body_json r of
                None \<Rightarrow> (Inl JSONDecodeError, sent (balance_request pk) s)
              | Some result \<Rightarrow>
                  (case py_in ''result'' result of
                     Inl e \<Rightarrow> (Inl e, sent (balance_request pk) s)
                   | Inr has \<Rightarrow>
                       if has then
                         (case path result [''result'', ''value''] of
                            Inl e \<Rightarrow> (Inl e, sent (balance_request pk) s)
                          | Inr v \<Rightarrow>
                              (case py_float (float_of_str lib) v of
                                 Inl e \<Rightarrow> (Inl e, sent (balance_request pk) s)
                               | Inr f \<Rightarrow>
                                   (case fl_div f (Fin 1000000000) of
                                      Inl e \<Rightarrow> (Inl e, sent (balance_request pk) s)
                                    | Inr q \<Rightarrow> (Inr (Some (PFloat q)), sent (balance_request pk) s))))
                       else (Inr None, sent (balance_request pk) s)))
           else (Inr None, sent (balance_request pk) s)))"
  by (simp add: get_sol_balance_try_def bnd_http bnd_response_json balance_request_def
        split: outcome.splits option.splits sum.splits)

lemma get_sol_balance_unfold:
  "get_sol_balance net lib pk s =
     (case get_sol_balance_try net lib pk s of
        (Inl e, s') \<Rightarrow> (Inr (PInt 0), logged [Logged ERROR [Lit ''Failed to get SOL balance: '', OfExn e]] s')
      | (Inr None, s') \<Rightarrow> (Inr (PInt 0), s')
      | (Inr (Some v), s') \<Rightarrow> (Inr v, s'))"
  by (simp add: get_sol_balance_def bnd_def try_except_apply emit_def logged_def
        split: prod.splits sum.splits option.splits)

lemma get_sol_balance_total:
  "\<exists>v evs. get_sol_balance net lib pk s = (Inr v, logged evs (sent (balance_request pk) s))
     \<and> (evs = [] \<or> (\<exists>e. evs = [Logged ERROR [Lit ''Failed to get SOL balance: '', OfExn e]]))"
proof -
  have "\<exists>r. get_sol_balance_try net lib pk s = (r, sent (balance_request pk) s)"
    by (simp add: get_sol_balance_try_unfold split: outcome.splits option.splits sum.splits)
  then obtain r where r: "get_sol_balance_try net lib pk s = (r, sent (balance_request pk) s)" ..
  have l0: "logged [] (sent (balance_request pk) s) = sent (balance_request pk) s"
    by (simp add: logged_def sent_def)
  show ?thesis
    by (cases r) (auto simp: get_sol_balance_unfold r l0 split: option.splits intro: exI[of _ "[]"])
qed

subsection \<open>The balance checker\<close>

text \<open>
  Claim C7. \<^verbatim>\<open>get_sol_balance\<close> never raises. When the RPC answers 200 with a JSON
  object whose \<open>result\<close> holds the integer \<open>value\<close> (a 64-bit lamport count \<open>v\<close>), it
  returns the float quotient of \<open>v\<close> by \<open>10\<^sup>9\<close>: the correctly rounded quotient of the
  float nearest to \<open>v\<close>, which is within a relative error of \<open>2\<^sup>-\<^sup>5\<^sup>1\<close> of \<open>v / 10\<^sup>9\<close>.
  On a network exception, on a status other than 200, on a body that is not JSON and on
  an object with no \<open>result\<close> field it returns the integer 0; the two paths that go
  through an exception log it first.
\<close>

theorem get_sol_balance_paths:
  "(\<exists>b. fst (get_sol_balance net lib pk s) = Inr b)
   \<and> (net (calls s) = Answer r \<and> status_code r = 200 \<and> body_json r = Some (JObj kvs)
        \<and> map_of kvs ''result'' = Some (JObj rs) \<and> map_of rs ''value'' = Some (JNum (PInt v))
        \<and> 0 \<le> v \<and> v < 2 ^ 64
        \<longrightarrow> (\<exists>y. get_sol_balance net lib pk s = (Inr (PFloat (Fin y)), sent (balance_request pk) s)
                 \<and> Fin y = round_double (nearest_double (of_int v) / 1000000000)
                 \<and> \<bar>y - of_int v / 1000000000\<bar> \<le> (of_int v / 1000000000) / 2 ^ 51))
   \<and> (net (calls s) = Unreachable why
        \<longrightarrow> get_sol_balance net lib pk s
              = (Inr (PInt 0),
                 logged [Logged ERROR [Lit ''Failed to get SOL balance: '', OfExn (RequestException why)]]
                   (sent (balance_request pk) s)))
   \<and> (net (calls s) = Answer r \<and> status_code r \<noteq> 200
        \<longrightarrow> get_sol_balance net lib pk s = (Inr (PInt 0), sent (balance_request pk) s))
   \<and> (net (calls s) = Answer r \<and> status_code r = 200 \<and> body_json r = None
        \<longrightarrow> get_sol_balance net lib pk s
              = (Inr (PInt 0),
                 logged [Logged ERROR [Lit ''Failed to get SOL balance: '', OfExn JSONDecodeError]]
                   (sent (balance_request pk) s)))
   \<and> (net (calls s) = Answer r \<and> status_code r = 200 \<and> body_json r = Some (JObj kvs)
        \<and> map_of kvs ''result'' = None
        \<longrightarrow> get_sol_balance net lib pk s = (Inr (PInt 0), sent (balance_request pk) s))"
proof (intro conjI impI)
  show "\<exists>b. fst (get_sol_balance net lib pk s) = Inr b"
    using get_sol_balance_total [of net lib pk s] by auto
next
  assume a: "net (calls s) = Answer r \<and> status_code r = 200 \<and> body_json r = Some (JObj kvs)
        \<and> map_of kvs ''result'' = Some (JObj rs) \<and> map_of rs ''value'' = Some (JNum (PInt v))
        \<and> 0 \<le> v \<and> v < 2 ^ 64"
  then have acc: "\<not> overflows (of_int v) \<and>
         (\<exists>y. round_double (nearest_double (of_int v) / 1000000000) = Fin y
              \<and> \<bar>y - of_int v / 1000000000\<bar> \<le> (of_int v / 1000000000) / 2 ^ 51)"
    using balance_accuracy [of v] by simp
  then obtain y where y: "round_double (nearest_double (of_int v) / 1000000000) = Fin y"
    "\<bar>y - of_int v / 1000000000\<bar> \<le> (of_int v / 1000000000) / 2 ^ 51" by blast
  have "get_sol_balance net lib pk s
          = (Inr (PFloat (round_double (nearest_double (of_int v) / 1000000000))),
             sent (balance_request pk) s)"
    using a acc
    by (simp add: get_sol_balance_unfold get_sol_balance_try_unfold float_of_int_def
          weak_map_of_SomeI domIff dom_map_of_conv_image_fst [symmetric])
  then show "\<exists>y. get_sol_balance net lib pk s = (Inr (PFloat (Fin y)), sent (balance_request pk) s)
                 \<and> Fin y = round_double (nearest_double (of_int v) / 1000000000)
                 \<and> \<bar>y - of_int v / 1000000000\<bar> \<le> (of_int v / 1000000000) / 2 ^ 51"
    using y by simp
next
  assume "net (calls s) = Unreachable why"
  then show "get_sol_balance net lib pk s
               = (Inr (PInt 0),
                  logged [Logged ERROR [Lit ''Failed to get SOL balance: '', OfExn (RequestException why)]]
                    (sent (balance_request pk) s))"
    by (simp add: get_sol_balance_unfold get_sol_balance_try_unfold)
next
  assume "net (calls s) = Answer r \<and> status_code r \<noteq> 200"
  then show "get_sol_balance net lib pk s = (Inr (PInt 0), sent (balance_request pk) s)"
    by (simp add: get_sol_balance_unfold get_sol_balance_try_unfold)
next
  assume "net (calls s) = Answer r \<and> status_code r = 200 \<and> body_json r = None"
  then show "get_sol_balance net lib pk s
               = (Inr (PInt 0),
                  logged [Logged ERROR [Lit ''Failed to get SOL balance: '', OfExn JSONDecodeError]]
                    (sent (balance_request pk) s))"
    by (simp add: get_sol_balance_unfold get_sol_balance_try_unfold)
next
  assume "net (calls s) = Answer r \<and> status_code r = 200 \<and> body_json r = Some (JObj kvs)
         \<and> map_of kvs ''result'' = None"
  then show "get_sol_balance net lib pk s = (Inr (PInt 0), sent (balance_request pk) s)"
    by (simp add: get_sol_balance_unfold get_sol_balance_try_unfold map_of_eq_None_iff)
qed

theorem get_sol_balance_paths_witness:
  "get_sol_balance (scripted [balance_answer 1500000000]) demo_library ''Wallet'' start
     = (Inr (PFloat (Fin (3 / 2))), sent (balance_request ''Wallet'') start)
   \<and> get_sol_balance (scripted [failed 503 ''unavailable'']) demo_library ''Wallet'' start
     = (Inr (PInt 0), sent (balance_request ''Wallet'') start)
   \<and> get_sol_balance (scripted [Unreachable ''timeout'']) demo_library ''Wallet'' start
     = (Inr (PInt 0),
        logged [Logged ERROR [Lit ''Failed to get SOL balance: '', OfExn (RequestException ''timeout'')]]
          (sent (balance_request ''Wallet'') start))"
proof -
  have v: "round_double (nearest_double (of_int 1500000000) / 1000000000) = Fin (3 / 2)"
    by code_simp
  have a: "\<exists>y. get_sol_balance (scripted [balance_answer 1500000000]) demo_library ''Wallet'' start
              = (Inr (PFloat (Fin y)), sent (balance_request ''Wallet'') start)
            \<and> Fin y = round_double (nearest_double (of_int 1500000000) / 1000000000)
            \<and> \<bar>y - of_int 1500000000 / 1000000000\<bar> \<le> (of_int 1500000000 / 1000000000) / 2 ^ 51"
    using get_sol_balance_paths [where net = "scripted [balance_answer 1500000000]" and s = start
        and r = "\<lparr>status_code = 200, body_text = [], body_json = Some (JObj [(''result'', JObj [(''value'', JNum (PInt 1500000000))])])\<rparr>"
        and kvs = "[(''result'', JObj [(''value'', JNum (PInt 1500000000))])]"
        and rs = "[(''value'', JNum (PInt 1500000000))]" and v = 1500000000
        and lib = demo_library and pk = "''Wallet''"]
    by (simp add: scripted_def balance_answer_def ok_def start_def)
  have b: "get_sol_balance (scripted [failed 503 ''unavailable'']) demo_library ''Wallet'' start
     = (Inr (PInt 0), sent (balance_request ''Wallet'') start)"
    using get_sol_balance_paths [where net = "scripted [failed 503 ''unavailable'']" and s = start
        and r = "\<lparr>status_code = 503, body_text = ''unavailable'', body_json = None\<rparr>"
        and lib = demo_library and pk = "''Wallet''"]
    by (simp add: scripted_def failed_def start_def)
  have c: "get_sol_balance (scripted [Unreachable ''timeout'']) demo_library ''Wallet'' start
     = (Inr (PInt 0),
        logged [Logged ERROR [Lit ''Failed to get SOL balance: '', OfExn (RequestException ''timeout'')]]
          (sent (balance_request ''Wallet'') start))"
    using get_sol_balance_paths [where net = "scripted [Unreachable ''timeout'']" and s = start
        and why = "''timeout''" and lib = demo_library and pk = "''Wallet''"]
    by (simp add: scripted_def start_def)
  from a v b c show ?thesis by auto
qed

subsection \<open>The confirmation poller\<close>











subsection \<open>Runs of the buy operation\<close>

lemma grows_ret [intro!]: "grows (ret x)"
  by (simp add: grows_def)

lemma grows_throw [intro!]: "grows (throw e)"
  by (simp add: grows_def)

lemma grows_lift [intro!]: "grows (lift r)"
  by (simp add: grows_def lift_def)

lemma grows_emit [intro!]: "grows (emit ev)"
  by (simp add: grows_def emit_def)

lemma grows_http [intro!]: "grows (http net rq)"
  by (simp add: grows_def http_def Let_def split: outcome.splits)

lemma grows_bnd [intro!]:
  assumes "grows m" and "\<And>x. grows (f x)"
  shows "grows (bnd m f)"
  unfolding grows_def
proof
  fix s
  obtain r s1 where m: "m s = (r, s1)" by (cases "m s")
  from assms(1) obtain e1 where e1: "trace s1 = trace s @ e1"
    unfolding grows_def using m by (metis snd_conv)
  show "\<exists>evs. trace (snd (bnd m f s)) = trace s @ evs"
  proof (cases r)
    case (Inl e)
    then show ?thesis using m e1 by (simp add: bnd_def)
  next
    case (Inr x)
    from assms(2) [of x] obtain e2 where "trace (snd (f x s1)) = trace s1 @ e2"
      unfolding grows_def by blast
    then show ?thesis using m e1 Inr by (simp add: bnd_def)
  qed
qed

lemma grows_try_except [intro!]:
  assumes "grows m" and "\<And>e. grows (h e)"
  shows "grows (try_except m h)"
  unfolding grows_def
proof
  fix s
  obtain r s1 where m: "m s = (r, s1)" by (cases "m s")
  from assms(1) obtain e1 where e1: "trace s1 = trace s @ e1"
    unfolding grows_def using m by (metis snd_conv)
  show "\<exists>evs. trace (snd (try_except m h s)) = trace s @ evs"
  proof (cases r)
    case (Inr x)
    then show ?thesis using m e1 by (simp add: try_except_def)
  next
    case (Inl e)
    from assms(2) [of e] obtain e2 where "trace (snd (h e s1)) = trace s1 @ e2"
      unfolding grows_def by blast
    then show ?thesis using m e1 Inl by (simp add: try_except_def)
  qed
qed

lemma grows_if [intro!]: "grows a \<Longrightarrow> grows b \<Longrightarrow> grows (if c then a else b)"
  by simp

lemma grows_case_option [intro!]:
  "grows a \<Longrightarrow> (\<And>x. grows (f x)) \<Longrightarrow> grows (case v of None \<Rightarrow> a | Some x \<Rightarrow> f x)"
  by (cases v) simp_all

lemma grows_response_json [intro!]: "grows (response_json r)"
  unfolding response_json_def by blast

lemma grows_raise_for_status [intro!]: "grows (raise_for_status r)"
  unfolding raise_for_status_def by blast

lemma grows_get_sol_balance [intro!]: "grows (get_sol_balance net lib pk)"
  unfolding get_sol_balance_def get_sol_balance_try_def by blast

lemma grows_poll_once [intro!]: "grows (poll_once net signature)"
  unfolding poll_once_def poll_try_def by blast

lemma grows_poll_loop [intro!]: "grows (poll_loop net signature n)"
proof (induction n)
  case 0
  show ?case unfolding poll_loop.simps by (rule grows_ret)
next
  case (Suc n)
  then show ?case unfolding poll_loop.simps by blast
qed

lemma grows_wait [intro!]: "grows (wait_for_transaction_confirmation_default net signature)"
  unfolding wait_for_transaction_confirmation_default_def wait_for_transaction_confirmation_def
  by blast

lemma grows_get_quote [intro!]: "grows (get_quote net a b c)"
  unfolding get_quote_def by blast

lemma grows_send_transaction [intro!]: "grows (send_transaction net tx)"
  unfolding send_transaction_def send_transaction_try_def by blast

lemma grows_verify_balance [intro!]: "grows (verify_balance net lib acct dec bal)"
  unfolding verify_balance_def by blast

lemma grows_buy_tokens [intro!]: "grows (buy_tokens net lib ca amount pk)"
  unfolding buy_tokens_def buy_tokens_try_def by blast

lemma grows_sell_discovered [intro!]: "grows (sell_discovered net lib ca amount kp acct dec bal)"
  unfolding sell_discovered_def by blast

lemma grows_sell_tokens [intro!]: "grows (sell_tokens net lib ca amount pk)"
  unfolding sell_tokens_def sell_tokens_try_def by blast

lemma reaches_here: "grows m \<Longrightarrow> reaches m s (trace s)"
  by (simp add: reaches_def grows_def)

lemma reaches_bnd:
  "m s = (Inr x, s1) \<Longrightarrow> reaches (f x) s1 evs \<Longrightarrow> reaches (bnd m f) s evs"
  by (simp add: reaches_def bnd_def)

lemma reaches_try_except:
  assumes "reaches m s evs" and "\<And>e. grows (h e)"
  shows "reaches (try_except m h) s evs"
proof -
  obtain r s1 where m: "m s = (r, s1)" by (cases "m s")
  from assms(1) obtain e1 where e1: "trace s1 = evs @ e1"
    unfolding reaches_def using m by (metis snd_conv)
  show ?thesis
  proof (cases r)
    case (Inr x)
    then show ?thesis using m e1 by (simp add: try_except_def reaches_def)
  next
    case (Inl e)
    from assms(2) [of e] obtain e2 where "trace (snd (h e s1)) = trace s1 @ e2"
      unfolding grows_def by blast
    then show ?thesis using m e1 Inl by (simp add: try_except_def reaches_def)
  qed
qed

lemma reaches_sent:
  assumes "\<And>r. grows (f r)"
  shows "reaches (bnd (http net rq) f) s (trace s @ [Sent rq])"
proof (cases "net (calls s)")
  case (Unreachable why)
  then show ?thesis by (simp add: reaches_def bnd_http)
next
  case (Answer r)
  from assms [of r] obtain e2 where "trace (snd (f r (sent rq s))) = trace (sent rq s) @ e2"
    unfolding grows_def by blast
  then show ?thesis using Answer by (simp add: reaches_def bnd_http)
qed

lemma reaches_bnd_eq:
  "m s = (Inr x, s1) \<Longrightarrow> reaches (bnd m f) s evs = reaches (f x) s1 evs"
  by (simp add: reaches_def bnd_def)

lemma reaches_http_eq:
  "net (calls s) = Answer r \<Longrightarrow> reaches (bnd (http net rq) f) s evs = reaches (f r) (sent rq s) evs"
  by (simp add: reaches_def bnd_http)

lemma reaches_emit_eq [simp]:
  "reaches (bnd (emit ev) f) s evs = reaches (f ()) (logged [ev] s) evs"
  by (simp add: reaches_def)

lemma reaches_json_eq:
  "body_json r = Some j \<Longrightarrow> reaches (bnd (response_json r) f) s evs = reaches (f j) s evs"
  by (simp add: bnd_response_json)

lemma reaches_first:
  assumes "starts m rq" and "\<And>x. grows (f x)" and "evs = trace s @ [Sent rq]"
  shows "reaches (bnd m f) s evs"
proof -
  obtain r s1 where m: "m s = (r, s1)" by (cases "m s")
  from assms(1) obtain e1 where e1: "trace s1 = trace s @ Sent rq # e1"
    unfolding starts_def using m by (metis snd_conv)
  show ?thesis
  proof (cases r)
    case (Inl e)
    then show ?thesis using m e1 assms(3) by (simp add: reaches_def bnd_def)
  next
    case (Inr x)
    from assms(2) [of x] obtain e2 where "trace (snd (f x s1)) = trace s1 @ e2"
      unfolding grows_def by blast
    then show ?thesis using m e1 Inr assms(3) by (simp add: reaches_def bnd_def)
  qed
qed

lemma starts_http: "starts (http net rq) rq"
  by (simp add: starts_def http_def Let_def split: outcome.splits)

lemma starts_bnd:
  assumes "starts m rq" and "\<And>x. grows (f x)"
  shows "starts (bnd m f) rq"
  unfolding starts_def
proof
  fix s
  have "reaches (bnd m f) s (trace s @ [Sent rq])"
    using assms by (intro reaches_first) simp_all
  then show "\<exists>more. trace (snd (bnd m f s)) = trace s @ Sent rq # more"
    by (simp add: reaches_def)
qed

lemma starts_try_except:
  assumes "starts m rq" and "\<And>e. grows (h e)"
  shows "starts (try_except m h) rq"
  unfolding starts_def
proof
  fix s
  obtain r s1 where m: "m s = (r, s1)" by (cases "m s")
  from assms(1) obtain e1 where e1: "trace s1 = trace s @ Sent rq # e1"
    unfolding starts_def using m by (metis snd_conv)
  show "\<exists>more. trace (snd (try_except m h s)) = trace s @ Sent rq # more"
  proof (cases r)
    case (Inr x)
    then show ?thesis using m e1 by (simp add: try_except_def)
  next
    case (Inl e)
    from assms(2) [of e] obtain e2 where "trace (snd (h e s1)) = trace s1 @ e2"
      unfolding grows_def by blast
    then show ?thesis using m e1 Inl by (simp add: try_except_def)
  qed
qed

lemma starts_send_transaction: "starts (send_transaction net tx) (relay_request tx)"
  unfolding send_transaction_def send_transaction_try_def relay_request_def
  by (intro starts_try_except starts_bnd starts_http) blast+


lemma starts_get_sol_balance: "starts (get_sol_balance net lib pk) (balance_request pk)"
  unfolding get_sol_balance_def get_sol_balance_try_def balance_request_def
  by (intro starts_try_except starts_bnd starts_http) blast+

lemma starts_poll_loop: "starts (poll_loop net signature (Suc n)) (poll_request signature)"
  unfolding poll_loop.simps poll_once_def poll_try_def poll_request_def
  by (intro starts_try_except starts_bnd starts_http) blast+

lemma starts_wait_default:
  "starts (wait_for_transaction_confirmation_default net signature) (poll_request signature)"
proof -
  have "nat 30 = Suc 29" by simp
  then show ?thesis
    unfolding wait_for_transaction_confirmation_default_def wait_for_transaction_confirmation_def
    by (simp only: starts_poll_loop)
qed

lemma get_quote_ok:
  assumes "quoted (net (calls s)) = Some q"
  shows "get_quote net a b c s = (Inr q, sent (quote_request a b c) s)"
proof -
  from assms obtain r where r: "net (calls s) = Answer r"
    "\<not> (400 \<le> status_code r \<and> status_code r < 600)" "body_json r = Some q"
    by (auto simp: quoted_def split: outcome.splits if_splits)
  then show ?thesis
    by (simp add: get_quote_def try_except_apply bnd_http raise_for_status_def response_json_def
          quote_request_def)
qed

lemma swap_blob_answer:
  assumes "swap_blob out = Some blob"
  shows "\<exists>r j. out = Answer r \<and> status_code r = 200 \<and> body_json r = Some j
            \<and> subscript j ''swapTransaction'' = Inr blob"
  using assms by (auto simp: swap_blob_def split: outcome.splits if_splits option.splits sum.splits)

lemma key_of_Inr:
  assumes "key_of lib private_key = Inr kp"
  shows "\<exists>kb. b58decode lib private_key = Inr kb \<and> keypair_from_bytes lib kb = Inr kp"
  using assms by (auto simp: key_of_def split: sum.splits)

lemma lamports_of_Inr:
  assumes "lamports_of amount = Inr i"
  shows "\<exists>p. num_mul amount (PInt 1000000000) = Inr p \<and> py_int p = Inr i"
  using assms by (auto simp: lamports_of_def split: sum.splits)

text \<open>The buy operation up to the balance check.\<close>

lemma buy_tokens_insufficient:
  assumes key: "key_of lib private_key = Inr kp"
    and bal: "get_sol_balance net lib (pubkey_str lib kp) s = (Inr bal, s1)"
    and low: "num_lt bal amount"
  shows "buy_tokens_try net lib ca amount private_key s = (Inl (insufficient bal amount), s1)"
    and "buy_tokens net lib ca amount private_key s
           = (Inr JNull, logged [Printed [Lit ''Error: '', OfExn (insufficient bal amount)]] s1)"
proof -
  from key_of_Inr [OF key] obtain kb where
    kb: "b58decode lib private_key = Inr kb" "keypair_from_bytes lib kb = Inr kp" by blast
  have b: "bnd (get_sol_balance net lib (pubkey_str lib kp)) f s = f bal s1" for f :: "pynum \<Rightarrow> json io"
    by (simp add: bnd_def bal)
  show t: "buy_tokens_try net lib ca amount private_key s = (Inl (insufficient bal amount), s1)"
    by (simp add: buy_tokens_try_def kb b low insufficient_def)
  show "buy_tokens net lib ca amount private_key s
           = (Inr JNull, logged [Printed [Lit ''Error: '', OfExn (insufficient bal amount)]] s1)"
    by (simp add: buy_tokens_def try_except_apply t)
qed


lemma buy_reaches_swap:
  assumes key: "key_of lib private_key = Inr kp"
    and bal: "get_sol_balance net lib (pubkey_str lib kp) s = (Inr bal, s1)"
    and enough: "\<not> num_lt bal amount"
    and conv: "lamports_of amount = Inr i"
    and quote: "quoted (net (calls s1)) = Some q"
  shows "reaches (buy_tokens net lib ca amount private_key) s
           (trace s1 @ [Sent (quote_request SOL_ADDRESS ca (py_str_int i)),
                        Sent (swap_request q (pubkey_str lib kp))])"
proof -
  from key_of_Inr [OF key] obtain kb where
    kb: "b58decode lib private_key = Inr kb" "keypair_from_bytes lib kb = Inr kp" by blast
  from lamports_of_Inr [OF conv] obtain p where
    p: "num_mul amount (PInt 1000000000) = Inr p" "py_int p = Inr i" by blast
  have qb: "reaches (bnd (get_sol_balance net lib (pubkey_str lib kp)) f) s evs = reaches (f bal) s1 evs"
    for f :: "pynum \<Rightarrow> json io" and evs
    by (simp add: reaches_def bnd_def bal)
  have qq: "reaches (bnd (get_quote net a b c) f) s1 evs = reaches (f q) (sent (quote_request a b c) s1) evs"
    for a b c and f :: "json \<Rightarrow> json io" and evs
    by (simp add: reaches_def bnd_def get_quote_ok [of net s1 q, OF quote])
  show ?thesis
    unfolding buy_tokens_def buy_tokens_try_def
    apply (rule reaches_try_except)
     apply (simp add: kb qb enough p qq)
     apply (rule reaches_first [OF starts_http])
      apply blast
     apply (simp add: swap_request_def)
    apply blast
    done
qed

lemma buy_reaches_relay:
  assumes key: "key_of lib private_key = Inr kp"
    and bal: "get_sol_balance net lib (pubkey_str lib kp) s = (Inr bal, s1)"
    and enough: "\<not> num_lt bal amount"
    and conv: "lamports_of amount = Inr i"
    and quote: "quoted (net (calls s1)) = Some q"
    and swap: "swap_blob (net (Suc (calls s1))) = Some blob"
    and sign: "sign_swap_transaction lib kp blob = Inr enc"
  shows "reaches (buy_tokens net lib ca amount private_key) s
           (trace s1 @ [Sent (quote_request SOL_ADDRESS ca (py_str_int i)),
                        Sent (swap_request q (pubkey_str lib kp)),
                        Sent (relay_request enc)])"
proof -
  from key_of_Inr [OF key] obtain kb where
    kb: "b58decode lib private_key = Inr kb" "keypair_from_bytes lib kb = Inr kp" by blast
  from lamports_of_Inr [OF conv] obtain p where
    p: "num_mul amount (PInt 1000000000) = Inr p" "py_int p = Inr i" by blast
  from swap_blob_answer [OF swap] obtain r j where
    r: "net (Suc (calls s1)) = Answer r" "status_code r = 200" "body_json r = Some j"
       "subscript j ''swapTransaction'' = Inr blob" by blast
  have qs: "reaches (bnd (http net rq) f) (sent rq' s1) evs = reaches (f r) (sent rq (sent rq' s1)) evs"
    for rq rq' and f :: "response \<Rightarrow> json io" and evs
    by (simp add: reaches_def bnd_http r)
  have qb: "reaches (bnd (get_sol_balance net lib (pubkey_str lib kp)) f) s evs = reaches (f bal) s1 evs"
    for f :: "pynum \<Rightarrow> json io" and evs
    by (simp add: reaches_def bnd_def bal)
  have qq: "reaches (bnd (get_quote net a b c) f) s1 evs = reaches (f q) (sent (quote_request a b c) s1) evs"
    for a b c and f :: "json \<Rightarrow> json io" and evs
    by (simp add: reaches_def bnd_def get_quote_ok [of net s1 q, OF quote])
  show ?thesis
    unfolding buy_tokens_def buy_tokens_try_def
    apply (rule reaches_try_except)
     apply (simp add: kb qb enough p qq
              qs r reaches_json_eq sign)
     apply (rule reaches_first [OF starts_send_transaction])
      apply blast
     apply (simp add: swap_request_def)
    apply blast
    done
qed

lemma not_overflows_small: "\<bar>k\<bar> \<le> 2 ^ 53 \<Longrightarrow> \<not> overflows (of_int k)"
proof -
  assume k: "\<bar>k\<bar> \<le> 2 ^ 53"
  then have "(of_int \<bar>k\<bar> :: rat) \<le> of_int (2 ^ 53)" by (simp only: of_int_le_iff)
  then have "\<bar>of_int k :: rat\<bar> \<le> 2 ^ 53" by simp
  also have "\<dots> < 2 ^ 1024" by simp
  finally show ?thesis using k by (simp add: overflows_def nearest_double_int not_le)
qed

lemma float_of_int_small: "\<bar>k\<bar> \<le> 2 ^ 53 \<Longrightarrow> float_of_int k = Inr (Fin (of_int k))"
  by (simp add: float_of_int_def not_overflows_small nearest_double_int)

lemma float_of_int_giga [simp]: "float_of_int 1000000000 = Inr (Fin 1000000000)"
  using float_of_int_small [of 1000000000] by simp

lemma lamports_of_float:
  "lamports_of (PFloat (Fin a)) =
     (if overflows (a * 1000000000) then Inl OverflowError
      else Inr (trunc_zero (nearest_double (a * 1000000000))))"
  by (simp add: lamports_of_def round_double_def)


lemma trunc_zero_int [simp]: "trunc_zero (of_int k) = k"
  by (simp add: trunc_zero_def)



lemma lamports_of_exact:
  assumes "a * 1000000000 = of_int k" and "\<bar>k\<bar> \<le> 2 ^ 53"
  shows "lamports_of (PFloat (Fin a)) = Inr k"
  using assms by (simp add: lamports_of_float not_overflows_small nearest_double_int)



lemma send_transaction_try_relay_ok:
  assumes "net (calls s) = Answer r" "status_code r = 200" "body_json r = Some (JObj kvs)"
  shows "send_transaction net tx s
           = (Inr (case map_of kvs ''txid'' of None \<Rightarrow> JNull | Some t \<Rightarrow> t), sent (relay_request tx) s)"
  using assms
  by (simp add: send_transaction_def send_transaction_try_def try_except_apply bnd_http
        bnd_response_json lift_def relay_request_def split: option.splits)

lemma buy_reaches_poll:
  assumes key: "key_of lib private_key = Inr kp"
    and bal: "get_sol_balance net lib (pubkey_str lib kp) s = (Inr bal, s1)"
    and enough: "\<not> num_lt bal amount"
    and conv: "lamports_of amount = Inr i"
    and quote: "quoted (net (calls s1)) = Some q"
    and swap: "swap_blob (net (Suc (calls s1))) = Some blob"
    and sign: "sign_swap_transaction lib kp blob = Inr enc"
    and send: "send_transaction net enc
                 (sent (swap_request q (pubkey_str lib kp))
                    (sent (quote_request SOL_ADDRESS ca (py_str_int i)) s1)) = (Inr tx_signature, s4)"
  shows "reaches (buy_tokens net lib ca amount private_key) s
           (trace s4 @ [Printed [Lit ''Transaction submitted. Waiting for confirmation...''],
                        Sent (poll_request tx_signature)])"
proof -
  from key_of_Inr [OF key] obtain kb where
    kb: "b58decode lib private_key = Inr kb" "keypair_from_bytes lib kb = Inr kp" by blast
  from lamports_of_Inr [OF conv] obtain p where
    p: "num_mul amount (PInt 1000000000) = Inr p" "py_int p = Inr i" by blast
  from swap_blob_answer [OF swap] obtain r j where
    r: "net (Suc (calls s1)) = Answer r" "status_code r = 200" "body_json r = Some j"
       "subscript j ''swapTransaction'' = Inr blob" by blast
  have qs: "reaches (bnd (http net rq) f) (sent rq' s1) evs = reaches (f r) (sent rq (sent rq' s1)) evs"
    for rq rq' and f :: "response \<Rightarrow> json io" and evs
    by (simp add: reaches_def bnd_http r)
  have qb: "reaches (bnd (get_sol_balance net lib (pubkey_str lib kp)) f) s evs = reaches (f bal) s1 evs"
    for f :: "pynum \<Rightarrow> json io" and evs
    by (simp add: reaches_def bnd_def bal)
  have qq: "reaches (bnd (get_quote net a b c) f) s1 evs = reaches (f q) (sent (quote_request a b c) s1) evs"
    for a b c and f :: "json \<Rightarrow> json io" and evs
    by (simp add: reaches_def bnd_def get_quote_ok [of net s1 q, OF quote])
  have qt: "reaches (bnd (send_transaction net enc) f)
              (sent (HttpPost swap_url (create_swap_data q (pubkey_str lib kp)) [])
                 (sent (quote_request SOL_ADDRESS ca (py_str_int i)) s1)) evs
            = reaches (f tx_signature) s4 evs"
    for f :: "json \<Rightarrow> json io" and evs
    using send by (simp add: reaches_def bnd_def swap_request_def)
  show ?thesis
    unfolding buy_tokens_def buy_tokens_try_def
    apply (rule reaches_try_except)
     apply (simp add: kb qb enough p qq qs r reaches_json_eq sign qt)
     apply (rule reaches_first [OF starts_wait_default])
      apply blast
     apply simp
    apply blast
    done
qed

subsection \<open>The buy operation: balance check, quote and swap build\<close>

lemma demo_key: "key_of demo_library ''k'' = Inr [107]"
  by (simp add: key_of_def demo_library_def)

lemma demo_pubkey [simp]: "pubkey_str demo_library kp = ''Wallet''"
  by (simp add: demo_library_def)

lemma demo_balance:
  "get_sol_balance (scripted (balance_answer 1000000000 # rest)) demo_library ''Wallet'' start
     = (Inr (PFloat (Fin 1)), sent (balance_request ''Wallet'') start)"
proof -
  have v: "round_double (nearest_double (of_int 1000000000) / 1000000000) = Fin 1"
    by code_simp
  have o: "\<not> overflows (of_int 1000000000)"
    using not_overflows_small [of 1000000000] by simp
  show ?thesis
    using v o
    by (simp add: get_sol_balance_unfold get_sol_balance_try_unfold scripted_def balance_answer_def ok_def
          start_def float_of_int_def)
qed

lemma demo_balance_low:
  "get_sol_balance (scripted (balance_answer 100000000 # rest)) demo_library ''Wallet'' start
     = (Inr (PFloat (Fin (3602879701896397 / 36028797018963968))), sent (balance_request ''Wallet'') start)"
proof -
  have v: "round_double (nearest_double (of_int 100000000) / 1000000000)
             = Fin (3602879701896397 / 36028797018963968)"
    by code_simp
  have o: "\<not> overflows (of_int 100000000)"
    using not_overflows_small [of 100000000] by simp
  show ?thesis
    using v o
    by (simp add: get_sol_balance_unfold get_sol_balance_try_unfold scripted_def balance_answer_def ok_def
          start_def float_of_int_def)
qed

text \<open>
  Claim C3. Once the key is derived and the balance checked, a balance strictly below the
  requested amount makes \<^verbatim>\<open>buy_tokens\<close> raise the insufficient-funds exception, which
  its handler prints before returning \<^verbatim>\<open>None\<close>. The balance request is the only request
  of the whole run: no quote request is issued (a quote request is never a balance request).
\<close>

theorem buy_tokens_insufficient_funds:
  "key_of lib private_key = Inr kp
   \<and> get_sol_balance net lib (pubkey_str lib kp) s = (Inr bal, sb)
   \<and> num_lt bal amount
   \<longrightarrow> buy_tokens_try net lib ca amount private_key s = (Inl (insufficient bal amount), sb)
       \<and> buy_tokens net lib ca amount private_key s
           = (Inr JNull, logged [Printed [Lit ''Error: '', OfExn (insufficient bal amount)]] sb)
       \<and> calls (snd (buy_tokens net lib ca amount private_key s)) = Suc (calls s)
       \<and> (\<exists>logs. trace (snd (buy_tokens net lib ca amount private_key s))
                    = trace s @ Sent (balance_request (pubkey_str lib kp)) # logs
                 \<and> (\<forall>rq. Sent rq \<notin> set logs))
       \<and> (\<forall>a b c. quote_request a b c \<noteq> balance_request (pubkey_str lib kp))"
proof (intro impI)
  assume a: "key_of lib private_key = Inr kp
   \<and> get_sol_balance net lib (pubkey_str lib kp) s = (Inr bal, sb)
   \<and> num_lt bal amount"
  then have key: "key_of lib private_key = Inr kp"
    and bal: "get_sol_balance net lib (pubkey_str lib kp) s = (Inr bal, sb)"
    and low: "num_lt bal amount" by simp_all
  from get_sol_balance_total [of net lib "pubkey_str lib kp" s] bal
  obtain evs where sb: "sb = logged evs (sent (balance_request (pubkey_str lib kp)) s)"
    and evs: "evs = [] \<or> (\<exists>e. evs = [Logged ERROR [Lit ''Failed to get SOL balance: '', OfExn e]])"
    by auto
  note r = buy_tokens_insufficient [OF key bal low]
  have noreq: "\<forall>rq. Sent rq \<notin> set (evs @ [Printed [Lit ''Error: '', OfExn (insufficient bal amount)]])"
    using evs by auto
  have t: "trace (snd (buy_tokens net lib ca amount private_key s))
             = trace s @ Sent (balance_request (pubkey_str lib kp))
                 # (evs @ [Printed [Lit ''Error: '', OfExn (insufficient bal amount)]])"
    by (simp add: r sb)
  show "buy_tokens_try net lib ca amount private_key s = (Inl (insufficient bal amount), sb)
       \<and> buy_tokens net lib ca amount private_key s
           = (Inr JNull, logged [Printed [Lit ''Error: '', OfExn (insufficient bal amount)]] sb)
       \<and> calls (snd (buy_tokens net lib ca amount private_key s)) = Suc (calls s)
       \<and> (\<exists>logs. trace (snd (buy_tokens net lib ca amount private_key s))
                    = trace s @ Sent (balance_request (pubkey_str lib kp)) # logs
                 \<and> (\<forall>rq. Sent rq \<notin> set logs))
       \<and> (\<forall>a b c. quote_request a b c \<noteq> balance_request (pubkey_str lib kp))"
    using r t noreq
    by (auto simp: sb quote_request_def balance_request_def)
qed

theorem buy_tokens_insufficient_funds_witness:
  "buy_tokens (scripted [balance_answer 100000000]) demo_library ''Mint'' (PFloat (Fin (1 / 2))) ''k'' start
     = (Inr JNull,
        Run 1 [Sent (balance_request ''Wallet''),
               Printed [Lit ''Error: '',
                        OfExn (insufficient (PFloat (Fin (3602879701896397 / 36028797018963968)))
                                 (PFloat (Fin (1 / 2))))]])"
proof -
  have low: "num_lt (PFloat (Fin (3602879701896397 / 36028797018963968))) (PFloat (Fin (1 / 2)))"
    by (simp add: num_lt_def)
  from buy_tokens_insufficient_funds
         [where lib = demo_library and private_key = "''k''" and kp = "[107]"
            and net = "scripted [balance_answer 100000000]" and s = start
            and bal = "PFloat (Fin (3602879701896397 / 36028797018963968))"
            and sb = "sent (balance_request ''Wallet'') start"
            and amount = "PFloat (Fin (1 / 2))" and ca = "''Mint''"]
       demo_key demo_balance_low [of "[]"] low
  show ?thesis
    by (simp add: start_def sent_def logged_def)
qed

text \<open>
  Claim C10. When the balance lookup returns no balance (for whatever reason: the body of
  \<^verbatim>\<open>get_sol_balance\<close> raised or fell through), \<^verbatim>\<open>get_sol_balance\<close> returns 0, and for
  every strictly positive amount \<^verbatim>\<open>buy_tokens\<close> aborts with the insufficient-funds
  exception after that single request; the comparison decides as it does for a true zero
  balance (the last conjunct).
\<close>

theorem buy_tokens_failed_lookup:
  "key_of lib private_key = Inr kp
   \<and> (\<forall>v. fst (get_sol_balance_try net lib (pubkey_str lib kp) s) \<noteq> Inr (Some v))
   \<and> num_lt (PInt 0) amount
   \<longrightarrow> fst (get_sol_balance net lib (pubkey_str lib kp) s) = Inr (PInt 0)
       \<and> fst (buy_tokens_try net lib ca amount private_key s) = Inl (insufficient (PInt 0) amount)
       \<and> fst (buy_tokens net lib ca amount private_key s) = Inr JNull
       \<and> calls (snd (buy_tokens net lib ca amount private_key s)) = Suc (calls s)
       \<and> num_lt (PFloat (Fin 0)) amount"
proof (intro impI)
  assume a: "key_of lib private_key = Inr kp
   \<and> (\<forall>v. fst (get_sol_balance_try net lib (pubkey_str lib kp) s) \<noteq> Inr (Some v))
   \<and> num_lt (PInt 0) amount"
  then have key: "key_of lib private_key = Inr kp"
    and fail: "\<forall>v. fst (get_sol_balance_try net lib (pubkey_str lib kp) s) \<noteq> Inr (Some v)"
    and pos: "num_lt (PInt 0) amount" by simp_all
  obtain a b where ab: "get_sol_balance_try net lib (pubkey_str lib kp) s = (a, b)"
    by (cases "get_sol_balance_try net lib (pubkey_str lib kp) s")
  have "\<exists>sb. get_sol_balance net lib (pubkey_str lib kp) s = (Inr (PInt 0), sb)"
  proof (cases a)
    case (Inl e)
    then show ?thesis by (simp add: get_sol_balance_unfold ab)
  next
    case (Inr returned)
    then show ?thesis using fail ab
      by (cases returned) (simp_all add: get_sol_balance_unfold)
  qed
  then obtain sb where bal: "get_sol_balance net lib (pubkey_str lib kp) s = (Inr (PInt 0), sb)" ..
  from get_sol_balance_total [of net lib "pubkey_str lib kp" s] bal
  have c: "calls sb = Suc (calls s)" by auto
  note r = buy_tokens_insufficient [OF key bal pos]
  have z: "num_lt (PFloat (Fin 0)) amount" using pos by (simp add: num_lt_def)
  show "fst (get_sol_balance net lib (pubkey_str lib kp) s) = Inr (PInt 0)
       \<and> fst (buy_tokens_try net lib ca amount private_key s) = Inl (insufficient (PInt 0) amount)
       \<and> fst (buy_tokens net lib ca amount private_key s) = Inr JNull
       \<and> calls (snd (buy_tokens net lib ca amount private_key s)) = Suc (calls s)
       \<and> num_lt (PFloat (Fin 0)) amount"
    using r bal c z by simp
qed

theorem buy_tokens_failed_lookup_witness:
  "fst (get_sol_balance (scripted [Unreachable ''timeout'']) demo_library ''Wallet'' start) = Inr (PInt 0)
   \<and> fst (buy_tokens_try (scripted [Unreachable ''timeout'']) demo_library ''Mint'' (PFloat (Fin (1 / 2))) ''k''
           start)
       = Inl (insufficient (PInt 0) (PFloat (Fin (1 / 2))))
   \<and> fst (buy_tokens (scripted [Unreachable ''timeout'']) demo_library ''Mint'' (PFloat (Fin (1 / 2))) ''k''
           start) = Inr JNull
   \<and> calls (snd (buy_tokens (scripted [Unreachable ''timeout'']) demo_library ''Mint''
                    (PFloat (Fin (1 / 2))) ''k'' start)) = 1"
proof -
  have f: "\<forall>v. fst (get_sol_balance_try (scripted [Unreachable ''timeout'']) demo_library
                       (pubkey_str demo_library [107]) start) \<noteq> Inr (Some v)"
    by (simp add: get_sol_balance_try_unfold scripted_def start_def)
  have pos: "num_lt (PInt 0) (PFloat (Fin (1 / 2)))" by (simp add: num_lt_def)
  from buy_tokens_failed_lookup
         [where lib = demo_library and private_key = "''k''" and kp = "[107]"
            and net = "scripted [Unreachable ''timeout'']" and s = start
            and amount = "PFloat (Fin (1 / 2))" and ca = "''Mint''"]
       demo_key f pos
  show ?thesis by (simp add: start_def)
qed

lemma demo_lamports_half: "lamports_of (PFloat (Fin (1 / 2))) = Inr 500000000"
  using lamports_of_exact [of "1 / 2" 500000000] by simp

lemma str_500000000: "py_str_int 500000000 = ''500000000''"
  by (simp add: py_str_int_def dec_digits.simps digit_char_def)

lemma demo_quoted: "quoted quote_answer = Some (JObj [(''outAmount'', JStr ''42'')])"
  by (simp add: quoted_def quote_answer_def ok_def)

lemma demo_swap_blob: "swap_blob swap_answer = Some (JStr ''0abc'')"
  by (simp add: swap_blob_def swap_answer_def ok_def)

text \<open>
  Claim C6. The swap-build body made by \<^verbatim>\<open>create_swap_data\<close> carries the quote and the
  sender's key with \<^verbatim>\<open>wrapUnwrapSOL\<close>, \<^verbatim>\<open>useVersionedTransaction\<close> and
  \<^verbatim>\<open>dynamicComputeUnitLimit\<close> true, \<^verbatim>\<open>dynamicSlippage.maxBps\<close> 300, and a priority fee
  of at most 10000000 lamports at level \<^verbatim>\<open>veryHigh\<close>, not global. When the balance check
  of \<^verbatim>\<open>buy_tokens\<close> passes and the quote request returns a quote, the next request is the
  post of exactly this body to the swap-build endpoint.
\<close>

theorem create_swap_data_posted:
  "path (create_swap_data q pub) [''quoteResponse''] = Inr q
   \<and> path (create_swap_data q pub) [''userPublicKey''] = Inr (JStr pub)
   \<and> path (create_swap_data q pub) [''wrapUnwrapSOL''] = Inr (JBool True)
   \<and> path (create_swap_data q pub) [''useVersionedTransaction''] = Inr (JBool True)
   \<and> path (create_swap_data q pub) [''dynamicComputeUnitLimit''] = Inr (JBool True)
   \<and> path (create_swap_data q pub) [''dynamicSlippage'', ''maxBps''] = Inr (JNum (PInt 300))
   \<and> path (create_swap_data q pub) (priority_keys @ [''maxLamports'']) = Inr (JNum (PInt 10000000))
   \<and> path (create_swap_data q pub) (priority_keys @ [''priorityLevel'']) = Inr (JStr ''veryHigh'')
   \<and> path (create_swap_data q pub) (priority_keys @ [''global'']) = Inr (JBool False)
   \<and> (key_of lib private_key = Inr kp
        \<and> get_sol_balance net lib (pubkey_str lib kp) s = (Inr bal, sb)
        \<and> \<not> num_lt bal amount
        \<and> lamports_of amount = Inr i
        \<and> quoted (net (calls sb)) = Some quote_response
      \<longrightarrow> reaches (buy_tokens net lib ca amount private_key) s
            (trace sb @ [Sent (quote_request SOL_ADDRESS ca (py_str_int i)),
                         Sent (HttpPost swap_url (create_swap_data quote_response (pubkey_str lib kp)) [])]))"
proof (intro conjI impI)
  assume "key_of lib private_key = Inr kp
        \<and> get_sol_balance net lib (pubkey_str lib kp) s = (Inr bal, sb)
        \<and> \<not> num_lt bal amount
        \<and> lamports_of amount = Inr i
        \<and> quoted (net (calls sb)) = Some quote_response"
  then show "reaches (buy_tokens net lib ca amount private_key) s
            (trace sb @ [Sent (quote_request SOL_ADDRESS ca (py_str_int i)),
                         Sent (HttpPost swap_url (create_swap_data quote_response (pubkey_str lib kp)) [])])"
    using buy_reaches_swap [of lib private_key kp net s bal sb amount i quote_response ca]
    by (simp add: swap_request_def)
qed (simp_all add: create_swap_data_def priority_keys_def)

theorem create_swap_data_posted_witness:
  "reaches (buy_tokens (scripted [balance_answer 1000000000, quote_answer]) demo_library ''Mint''
              (PFloat (Fin (1 / 2))) ''k'') start
     [Sent (balance_request ''Wallet''),
      Sent (quote_request SOL_ADDRESS ''Mint'' ''500000000''),
      Sent (HttpPost swap_url (create_swap_data (JObj [(''outAmount'', JStr ''42'')]) ''Wallet'') [])]"
proof -
  let ?net = "scripted [balance_answer 1000000000, quote_answer]"
  have enough: "\<not> num_lt (PFloat (Fin 1)) (PFloat (Fin (1 / 2)))" by (simp add: num_lt_def)
  have q: "quoted (?net (calls (sent (balance_request ''Wallet'') start)))
             = Some (JObj [(''outAmount'', JStr ''42'')])"
    by (simp add: scripted_def start_def demo_quoted)
  from create_swap_data_posted
         [where lib = demo_library and private_key = "''k''" and kp = "[107]" and net = ?net
            and s = start and bal = "PFloat (Fin 1)" and sb = "sent (balance_request ''Wallet'') start"
            and amount = "PFloat (Fin (1 / 2))" and i = 500000000 and ca = "''Mint''"
            and quote_response = "JObj [(''outAmount'', JStr ''42'')]"]
       demo_key demo_balance [of "[quote_answer]"] enough demo_lamports_half q
  show ?thesis
    by (simp add: str_500000000 start_def)
qed




subsection \<open>The transaction submitter\<close>









end
